theory Spec2Isabelle
  imports Complex_Main "HOL-Library.AList"
begin

section \<open>Shared data: points, layer sets, colours\<close>

text \<open>
  \<^verbatim>\<open>wxPoint\<close> and \<^verbatim>\<open>wxSize\<close> are pairs of C++ \<^verbatim>\<open>int\<close> (x, y); the
  arithmetic of the plotted board stays far from the 32-bit limits, so the components
  are unbounded integers here. A \<^verbatim>\<open>double\<close> is a real number. An \<^verbatim>\<open>LSET\<close>
  (a \<^verbatim>\<open>std::bitset\<close> indexed by layer) is the set of the layers whose bit is set:
  \<^verbatim>\<open>mask[layer]\<close> is membership, \<^verbatim>\<open>(a & b).any()\<close> is a non-empty
  intersection.
\<close>

type_synonym wxPoint = "int \<times> int"
type_synonym wxSize = "int \<times> int"
type_synonym LAYER_NUM = int
type_synonym LSET = "int set"

datatype COLOR4D = COLOR4D (col_r: real) (col_g: real) (col_b: real) (col_a: real)

definition WHITE :: COLOR4D where
  "WHITE = COLOR4D 1 1 1 1"


text \<open>
  Modelled from the spec: the geometry utilities (\<^verbatim>\<open>trigo.h\<close>, \<^verbatim>\<open>common.h\<close>,
  \<^verbatim>\<open>macros.h\<close>) are not among the sources. \<^verbatim>\<open>GetLineLength\<close> is the length of
  the segment between two points (\<^verbatim>\<open>hypot\<close>), \<^verbatim>\<open>KiROUND\<close> rounds a double to the
  nearest int (\<^verbatim>\<open>int( v < 0 ? v - 0.5 : v + 0.5 )\<close>), \<^verbatim>\<open>Clamp( lower, value, upper )\<close>
  brings a value into a range.
\<close>

definition GetLineLength :: "wxPoint \<Rightarrow> wxPoint \<Rightarrow> real" where
  "GetLineLength aPointA aPointB =
     sqrt ((real_of_int (fst aPointA - fst aPointB))\<^sup>2 + (real_of_int (snd aPointA - snd aPointB))\<^sup>2)"

definition KiROUND :: "real \<Rightarrow> int" where
  "KiROUND v = (if v < 0 then \<lceil>v - 1 / 2\<rceil> else \<lfloor>v + 1 / 2\<rfloor>)"


section \<open>The board-item plotter (\<^verbatim>\<open>plot_brditems_plotter.cpp\<close>)\<close>

subsection \<open>Manufacturing metadata\<close>

text \<open>
  Modelled from the spec: \<^verbatim>\<open>GBR_METADATA\<close> is declared in a header that is not among
  the sources. Its fields are the ones the spec lists (net-attribute kind, net name,
  component reference, pad name, aperture-function classification) and the
  \<^verbatim>\<open>m_NotInNet\<close> flag the plotter sets; each setter of the source stores its
  argument in the field of the same name. A fresh record has no attribute set.
\<close>

datatype GBR_NETINFO_TYPE =
    GBR_NETINFO_UNSPECIFIED
  | GBR_NETINFO_ALL
  | GBR_NETINFO_NET_CMP
  | GBR_NETINFO_NET
  | GBR_NETINFO_CMP

datatype GBR_APERTURE_ATTRIB =
    GBR_APERTURE_ATTRIB_NONE
  | GBR_APERTURE_ATTRIB_ETCHEDCMP
  | GBR_APERTURE_ATTRIB_CONDUCTOR
  | GBR_APERTURE_ATTRIB_NONCONDUCTOR
  | GBR_APERTURE_ATTRIB_COMPONENTPAD
  | GBR_APERTURE_ATTRIB_SMDPAD_CUDEF
  | GBR_APERTURE_ATTRIB_BGAPAD_CUDEF
  | GBR_APERTURE_ATTRIB_CONNECTORPAD
  | GBR_APERTURE_ATTRIB_WASHERPAD
  | GBR_APERTURE_ATTRIB_VIAPAD

record GBR_METADATA =
  m_NetAttribType :: GBR_NETINFO_TYPE
  m_NotInNet :: bool
  m_Padname :: string
  m_Cmpref :: string
  m_Netname :: string
  m_ApertAttribute :: GBR_APERTURE_ATTRIB

definition GBR_METADATA_new :: GBR_METADATA where
  "GBR_METADATA_new =
     \<lparr>m_NetAttribType = GBR_NETINFO_UNSPECIFIED, m_NotInNet = False, m_Padname = [],
      m_Cmpref = [], m_Netname = [], m_ApertAttribute = GBR_APERTURE_ATTRIB_NONE\<rparr>"

subsection \<open>The plotter back end, as the calls it receives\<close>

datatype EDA_DRAW_MODE_T = FILLED | SKETCH
datatype FILL_T = NO_FILL | FILLED_SHAPE
datatype EDA_TEXT_HJUSTIFY_T = GR_TEXT_HJUSTIFY_LEFT | GR_TEXT_HJUSTIFY_CENTER | GR_TEXT_HJUSTIFY_RIGHT
datatype EDA_TEXT_VJUSTIFY_T = GR_TEXT_VJUSTIFY_TOP | GR_TEXT_VJUSTIFY_CENTER | GR_TEXT_VJUSTIFY_BOTTOM

text \<open>
  \<^verbatim>\<open>m_plotter\<close> is an external sink. Every call the plotter code makes on it is
  recorded, with its arguments in the order of the source, so the state of the sink is
  the list of the calls it has received. A metadata pointer is \<open>Some\<close> of the record, a
  \<^verbatim>\<open>NULL\<close> or omitted pointer is \<open>None\<close>.
\<close>

datatype PLOT_CALL =
    SetColor COLOR4D
  | SetCurrentLineWidth int "GBR_METADATA option"
  | FlashPadCircle wxPoint int EDA_DRAW_MODE_T "GBR_METADATA option"
  | FlashPadOval wxPoint wxSize real EDA_DRAW_MODE_T "GBR_METADATA option"
  | FlashPadTrapez wxPoint "wxPoint list" real EDA_DRAW_MODE_T "GBR_METADATA option"
  | FlashPadRoundRect wxPoint wxSize int real EDA_DRAW_MODE_T "GBR_METADATA option"
  | FlashPadRect wxPoint wxSize real EDA_DRAW_MODE_T "GBR_METADATA option"
  | ThickSegment wxPoint wxPoint int EDA_DRAW_MODE_T "GBR_METADATA option"
  | ThickCircle wxPoint int int EDA_DRAW_MODE_T "GBR_METADATA option"
  | ThickArc wxPoint real real int int EDA_DRAW_MODE_T "GBR_METADATA option"
  | PlotPoly "wxPoint list" FILL_T int "GBR_METADATA option"
  | PlotText wxPoint "COLOR4D option" string real wxSize EDA_TEXT_HJUSTIFY_T
      EDA_TEXT_VJUSTIFY_T int bool bool bool "GBR_METADATA option"

text \<open>A primitive call draws something; \<^verbatim>\<open>SetColor\<close> and
  \<^verbatim>\<open>SetCurrentLineWidth\<close> only change the state of the sink.\<close>

fun is_primitive :: "PLOT_CALL \<Rightarrow> bool" where
  "is_primitive (SetColor c) = False"
| "is_primitive (SetCurrentLineWidth w m) = False"
| "is_primitive c = True"

fun call_metadata :: "PLOT_CALL \<Rightarrow> GBR_METADATA option" where
  "call_metadata (SetColor c) = None"
| "call_metadata (SetCurrentLineWidth w m) = m"
| "call_metadata (FlashPadCircle p d mode m) = m"
| "call_metadata (FlashPadOval p s orient mode m) = m"
| "call_metadata (FlashPadTrapez p cs orient mode m) = m"
| "call_metadata (FlashPadRoundRect p s r orient mode m) = m"
| "call_metadata (FlashPadRect p s orient mode m) = m"
| "call_metadata (ThickSegment p q w mode m) = m"
| "call_metadata (ThickCircle p d w mode m) = m"
| "call_metadata (ThickArc p a1 a2 r w mode m) = m"
| "call_metadata (PlotPoly cs f w m) = m"
| "call_metadata (PlotText p c t orient s hj vj w it bo ml m) = m"

subsection \<open>What the plotter reads from its surroundings\<close>

text \<open>
  Constants and helpers of headers that are not among the sources are parameters: the
  layer masks of \<^verbatim>\<open>LSET\<close>, the \<^verbatim>\<open>Edge_Cuts\<close> layer, the colour
  \<^verbatim>\<open>LIGHTGRAY\<close>, \<^verbatim>\<open>IsCopperLayer\<close>, \<^verbatim>\<open>ArcTangente\<close>,
  \<^verbatim>\<open>RotatePoint\<close> and \<^verbatim>\<open>wxStringSplit\<close>.
\<close>

record PCB_ENV =
  AllCuMask :: LSET
  ExternalCuMask :: LSET
  AllBoardTechMask :: LSET
  Edge_Cuts :: LAYER_NUM
  LIGHTGRAY :: COLOR4D
  IsCopperLayer :: "LAYER_NUM \<Rightarrow> bool"
  ArcTangente :: "int \<Rightarrow> int \<Rightarrow> real"
  RotatePoint :: "wxPoint \<Rightarrow> real \<Rightarrow> wxPoint"
  wxStringSplit :: "string \<Rightarrow> char \<Rightarrow> string list"

text \<open>
  The members of \<^verbatim>\<open>BRDITEMS_PLOTTER\<close> the plotted functions read: the layer mask,
  the layer colours of the board (\<^verbatim>\<open>m_board->GetLayerColor\<close>), the plot mode
  (\<^verbatim>\<open>GetPlotMode()\<close>), the width compensation (\<^verbatim>\<open>getFineWidthAdj()\<close>), and the
  sink \<^verbatim>\<open>m_plotter\<close>.
\<close>

record BRDITEMS_PLOTTER =
  m_layerMask :: LSET
  board_LayerColor :: "LAYER_NUM \<Rightarrow> COLOR4D"
  plotMode :: EDA_DRAW_MODE_T
  fineWidthAdj :: int
  m_plotter :: "PLOT_CALL list"

definition emit :: "PLOT_CALL \<Rightarrow> BRDITEMS_PLOTTER \<Rightarrow> BRDITEMS_PLOTTER" where
  "emit c p = p\<lparr>m_plotter := m_plotter p @ [c]\<rparr>"

definition emit_all :: "PLOT_CALL list \<Rightarrow> BRDITEMS_PLOTTER \<Rightarrow> BRDITEMS_PLOTTER" where
  "emit_all cs p = p\<lparr>m_plotter := m_plotter p @ cs\<rparr>"

definition getColor :: "PCB_ENV \<Rightarrow> BRDITEMS_PLOTTER \<Rightarrow> LAYER_NUM \<Rightarrow> COLOR4D" where
  "getColor env p aLayer =
     (let color = board_LayerColor p aLayer
      in if color = WHITE then LIGHTGRAY env else color)"

subsection \<open>Pads\<close>

datatype PAD_ATTR_T =
    PAD_ATTRIB_STANDARD
  | PAD_ATTRIB_SMD
  | PAD_ATTRIB_CONN
  | PAD_ATTRIB_HOLE_NOT_PLATED

datatype PAD_SHAPE_T =
    PAD_SHAPE_CIRCLE
  | PAD_SHAPE_RECT
  | PAD_SHAPE_OVAL
  | PAD_SHAPE_TRAPEZOID
  | PAD_SHAPE_ROUNDRECT


text \<open>What \<^verbatim>\<open>PlotPad\<close> reads of a \<^verbatim>\<open>D_PAD\<close>; \<open>pad_Polygon\<close> is the result of
  \<^verbatim>\<open>BuildPadPolygon( coord, wxSize(0,0), 0 )\<close>.\<close>

record D_PAD =
  pad_ShapePos :: wxPoint
  pad_LayerSet :: LSET
  pad_ParentReference :: string
  pad_PadName :: string
  pad_Netname :: string
  pad_Attribute :: PAD_ATTR_T
  pad_Shape :: PAD_SHAPE_T
  pad_Size :: wxSize
  pad_Orientation :: real
  pad_RoundRectCornerRadius :: int
  pad_Polygon :: "wxPoint list"

text \<open>The metadata part of \<^verbatim>\<open>PlotPad\<close>: everything up to the call of
  \<^verbatim>\<open>SetColor\<close>.\<close>

definition PlotPad_metadata :: "PCB_ENV \<Rightarrow> LSET \<Rightarrow> D_PAD \<Rightarrow> GBR_METADATA" where
  "PlotPad_metadata env layerMask aPad =
     (let isOnCopperLayer = (layerMask \<inter> AllCuMask env \<noteq> {});
          isOnExternalCopperLayer = (layerMask \<inter> ExternalCuMask env \<noteq> {});
          isPadOnBoardTechLayers = (pad_LayerSet aPad \<inter> AllBoardTechMask env \<noteq> {});
          m0 = GBR_METADATA_new\<lparr>m_Cmpref := pad_ParentReference aPad\<rparr>
      in if isOnCopperLayer then
           (let m1 = m0\<lparr>m_NetAttribType := GBR_NETINFO_ALL\<rparr>;
                m2 = (if isOnExternalCopperLayer then m1\<lparr>m_Padname := pad_PadName aPad\<rparr> else m1);
                m3 = m2\<lparr>m_Netname := pad_Netname aPad\<rparr>;
                m4 = (if pad_Attribute aPad = PAD_ATTRIB_HOLE_NOT_PLATED \<or> pad_PadName aPad = []
                      then m3\<lparr>m_NotInNet := True\<rparr> else m3);
                m5 = (if \<not> isOnExternalCopperLayer \<or> \<not> isPadOnBoardTechLayers then
                        (let m5a = m4\<lparr>m_NetAttribType := GBR_NETINFO_NET_CMP\<rparr>;
                             m5b = (if \<not> isPadOnBoardTechLayers
                                    then m5a\<lparr>m_ApertAttribute := GBR_APERTURE_ATTRIB_CONDUCTOR\<rparr>
                                    else m5a)
                         in case pad_Attribute aPad of
                              PAD_ATTRIB_HOLE_NOT_PLATED \<Rightarrow>
                                m5b\<lparr>m_ApertAttribute := GBR_APERTURE_ATTRIB_WASHERPAD\<rparr>
                            | PAD_ATTRIB_STANDARD \<Rightarrow>
                                m5b\<lparr>m_ApertAttribute := GBR_APERTURE_ATTRIB_VIAPAD\<rparr>
                            | _ \<Rightarrow> m5b)
                      else
                        (case pad_Attribute aPad of
                           PAD_ATTRIB_HOLE_NOT_PLATED \<Rightarrow>
                             m4\<lparr>m_ApertAttribute := GBR_APERTURE_ATTRIB_WASHERPAD\<rparr>
                         | PAD_ATTRIB_STANDARD \<Rightarrow>
                             m4\<lparr>m_ApertAttribute := GBR_APERTURE_ATTRIB_COMPONENTPAD\<rparr>
                         | PAD_ATTRIB_CONN \<Rightarrow>
                             m4\<lparr>m_ApertAttribute := GBR_APERTURE_ATTRIB_CONNECTORPAD\<rparr>
                         | PAD_ATTRIB_SMD \<Rightarrow>
                             (if pad_Shape aPad = PAD_SHAPE_CIRCLE
                              then m4\<lparr>m_ApertAttribute := GBR_APERTURE_ATTRIB_BGAPAD_CUDEF\<rparr>
                              else m4\<lparr>m_ApertAttribute := GBR_APERTURE_ATTRIB_SMDPAD_CUDEF\<rparr>)))
            in if pad_Attribute aPad = PAD_ATTRIB_HOLE_NOT_PLATED
               then m5\<lparr>m_ApertAttribute := GBR_APERTURE_ATTRIB_WASHERPAD\<rparr> else m5)
         else m0\<lparr>m_NetAttribType := GBR_NETINFO_CMP\<rparr>)"

definition PlotPad ::
  "PCB_ENV \<Rightarrow> BRDITEMS_PLOTTER \<Rightarrow> D_PAD \<Rightarrow> COLOR4D \<Rightarrow> EDA_DRAW_MODE_T \<Rightarrow> BRDITEMS_PLOTTER" where
  "PlotPad env p aPad aColor aPlotMode =
     (let shape_pos = pad_ShapePos aPad;
          gbr_metadata = PlotPad_metadata env (m_layerMask p) aPad;
          p1 = emit (SetColor (if aColor \<noteq> WHITE then aColor else LIGHTGRAY env)) p
      in case pad_Shape aPad of
           PAD_SHAPE_CIRCLE \<Rightarrow>
             emit (FlashPadCircle shape_pos (fst (pad_Size aPad)) aPlotMode (Some gbr_metadata)) p1
         | PAD_SHAPE_OVAL \<Rightarrow>
             emit (FlashPadOval shape_pos (pad_Size aPad) (pad_Orientation aPad) aPlotMode
                     (Some gbr_metadata)) p1
         | PAD_SHAPE_TRAPEZOID \<Rightarrow>
             emit (FlashPadTrapez shape_pos (pad_Polygon aPad) (pad_Orientation aPad) aPlotMode
                     (Some gbr_metadata)) p1
         | PAD_SHAPE_ROUNDRECT \<Rightarrow>
             emit (FlashPadRoundRect shape_pos (pad_Size aPad) (pad_RoundRectCornerRadius aPad)
                     (pad_Orientation aPad) aPlotMode (Some gbr_metadata)) p1
         | PAD_SHAPE_RECT \<Rightarrow>
             emit (FlashPadRect shape_pos (pad_Size aPad) (pad_Orientation aPad) aPlotMode
                     (Some gbr_metadata)) p1)"

subsection \<open>Drill marks\<close>


subsection \<open>Graphic segments and targets\<close>

datatype STROKE_T = S_SEGMENT | S_RECT | S_ARC | S_CIRCLE | S_POLYGON | S_CURVE






subsection \<open>Footprint edges\<close>

datatype KICAD_T = PCB_MODULE_EDGE_T | PCB_OTHER_T

text \<open>What \<^verbatim>\<open>Plot_1_EdgeModule\<close> reads of an \<^verbatim>\<open>EDGE_MODULE\<close>;
  \<open>edge_ParentModule\<close> is the orientation and position of \<^verbatim>\<open>GetParentModule()\<close>,
  \<open>None\<close> for a null pointer.\<close>

record EDGE_MODULE =
  edge_Type :: KICAD_T
  edge_Layer :: LAYER_NUM
  edge_Shape :: STROKE_T
  edge_Width :: int
  edge_Start :: wxPoint
  edge_End :: wxPoint
  edge_Angle :: real
  edge_PolyPoints :: "wxPoint list"
  edge_ParentReference :: string
  edge_ParentModule :: "(real \<times> wxPoint) option"

definition Plot_1_EdgeModule :: "PCB_ENV \<Rightarrow> BRDITEMS_PLOTTER \<Rightarrow> EDGE_MODULE \<Rightarrow> BRDITEMS_PLOTTER" where
  "Plot_1_EdgeModule env p aEdge =
     (if edge_Type aEdge \<noteq> PCB_MODULE_EDGE_T then p
      else
        (let p1 = emit (SetColor (getColor env p (edge_Layer aEdge))) p;
             type_trace = edge_Shape aEdge;
             thickness = edge_Width aEdge;
             pos = edge_Start aEdge;
             end = edge_End aEdge;
             m0 = GBR_METADATA_new\<lparr>m_NetAttribType := GBR_NETINFO_CMP,
                    m_Cmpref := edge_ParentReference aEdge\<rparr>;
             isOnCopperLayer = (m_layerMask p \<inter> AllCuMask env \<noteq> {});
             gbr_metadata =
               (if isOnCopperLayer then m0\<lparr>m_ApertAttribute := GBR_APERTURE_ATTRIB_ETCHEDCMP\<rparr>
                else if edge_Layer aEdge = Edge_Cuts env
                then m0\<lparr>m_ApertAttribute := GBR_APERTURE_ATTRIB_NONCONDUCTOR\<rparr>
                else m0)
         in case type_trace of
              S_SEGMENT \<Rightarrow>
                emit (ThickSegment pos end thickness (plotMode p) (Some gbr_metadata)) p1
            | S_CIRCLE \<Rightarrow>
                (let radius = KiROUND (GetLineLength end pos)
                 in emit (ThickCircle pos (radius * 2) thickness (plotMode p) (Some gbr_metadata)) p1)
            | S_ARC \<Rightarrow>
                (let radius = KiROUND (GetLineLength end pos);
                     startAngle = ArcTangente env (snd end - snd pos) (fst end - fst pos);
                     endAngle = startAngle + edge_Angle aEdge
                 in emit (ThickArc pos (- endAngle) (- startAngle) radius thickness (plotMode p)
                            (Some gbr_metadata)) p1)
            | S_POLYGON \<Rightarrow>
                (let polyPoints = edge_PolyPoints aEdge
                 in if length polyPoints \<le> 1 then p1
                    else
                      (let cornerList =
                             map (\<lambda>corner.
                                    case edge_ParentModule aEdge of
                                      None \<Rightarrow> corner
                                    | Some (orientation, position) \<Rightarrow>
                                        (let c = RotatePoint env corner orientation
                                         in (fst c + fst position, snd c + snd position)))
                               polyPoints
                       in emit (PlotPoly cornerList FILLED_SHAPE thickness (Some gbr_metadata)) p1))
            | _ \<Rightarrow> p1))"

subsection \<open>Board texts\<close>

text \<open>What \<^verbatim>\<open>PlotTextePcb\<close> reads of a \<^verbatim>\<open>TEXTE_PCB\<close>; \<open>txt_LinePositions n\<close> is
  what \<^verbatim>\<open>GetPositionsOfLinesOfMultilineText\<close> stores for \<open>n\<close> lines.\<close>

record TEXTE_PCB =
  txt_ShownText :: string
  txt_Layer :: LAYER_NUM
  txt_TextSize :: wxSize
  txt_TextPos :: wxPoint
  txt_TextAngle :: real
  txt_Thickness :: int
  txt_Mirrored :: bool
  txt_Bold :: bool
  txt_Italic :: bool
  txt_MultilineAllowed :: bool
  txt_HorizJustify :: EDA_TEXT_HJUSTIFY_T
  txt_VertJustify :: EDA_TEXT_VJUSTIFY_T
  txt_LinePositions :: "nat \<Rightarrow> wxPoint list"

definition PlotTextePcb :: "PCB_ENV \<Rightarrow> BRDITEMS_PLOTTER \<Rightarrow> TEXTE_PCB \<Rightarrow> BRDITEMS_PLOTTER" where
  "PlotTextePcb env p pt_texte =
     (let shownText = txt_ShownText pt_texte
      in if shownText = [] then p
         else if txt_Layer pt_texte \<notin> m_layerMask p then p
         else
           (let gbr_metadata =
                  (if IsCopperLayer env (txt_Layer pt_texte)
                   then GBR_METADATA_new\<lparr>m_ApertAttribute := GBR_APERTURE_ATTRIB_NONCONDUCTOR\<rparr>
                   else GBR_METADATA_new);
                p1 = emit (SetColor (getColor env p (txt_Layer pt_texte))) p;
                size0 = txt_TextSize pt_texte;
                pos = txt_TextPos pt_texte;
                orient = txt_TextAngle pt_texte;
                thickness = txt_Thickness pt_texte;
                size = (if txt_Mirrored pt_texte then (- fst size0, snd size0) else size0);
                allow_bold = (txt_Bold pt_texte \<or> thickness \<noteq> 0)
            in if txt_MultilineAllowed pt_texte then
                 (let strings_list = wxStringSplit env shownText (CHR 0x0A);
                      positions = txt_LinePositions pt_texte (length strings_list)
                  in emit_all
                       (map (\<lambda>ii. PlotText (positions ! ii) None (strings_list ! ii) orient size
                                    (txt_HorizJustify pt_texte) (txt_VertJustify pt_texte) thickness
                                    (txt_Italic pt_texte) allow_bold False (Some gbr_metadata))
                          [0..<length strings_list])
                       p1)
               else
                 emit (PlotText pos None shownText orient size (txt_HorizJustify pt_texte)
                         (txt_VertJustify pt_texte) thickness (txt_Italic pt_texte) allow_bold False
                         (Some gbr_metadata)) p1))"

section \<open>The Cairo graphics abstraction layer (\<^verbatim>\<open>cairo_gal.cpp\<close>)\<close>

subsection \<open>The cairo context\<close>

text \<open>
  Cairo is an external library. Its context is modelled by the part of its state the
  GAL drives: the current path, the source colour, the line width, the transformation
  matrix, the stack of \<^verbatim>\<open>cairo_save\<close>, and the surface, which is the list of the
  paint operations done so far, each with the compositor buffer it went to. Coordinates
  are doubles, real numbers here. A matrix is kept as the list of the operations that
  built it from the identity, and every path instruction is kept with the matrix in
  force when it was issued: together they stand for the path in device space.
\<close>

type_synonym VECTOR2D = "real \<times> real"

datatype cairo_matrix_op =
    MATRIX_MULTIPLY real real real real real real
  | MATRIX_ROTATE real
  | MATRIX_TRANSLATE real real
  | MATRIX_SCALE real real

type_synonym cairo_matrix_t = "cairo_matrix_op list"

datatype cairo_path_data =
    PATH_MOVE_TO real real
  | PATH_LINE_TO real real
  | PATH_CURVE_TO real real real real real real
  | PATH_ARC real real real real real
  | PATH_ARC_NEGATIVE real real real real real
  | PATH_RECTANGLE real real real real
  | PATH_NEW_SUB_PATH
  | PATH_CLOSE_PATH
  | PATH_COPIED cairo_matrix_t cairo_matrix_t cairo_path_data

type_synonym cairo_path = "(cairo_matrix_t \<times> cairo_path_data) list"

text \<open>A \<^verbatim>\<open>cairo_path_t\<close>, the result of \<^verbatim>\<open>cairo_copy_path\<close>: the path and the
  matrix under which it was copied.\<close>

type_synonym cairo_path_t = "cairo_matrix_t \<times> cairo_path"

text \<open>The line width the GAL sets is \<^verbatim>\<open>std::max( width, minWidth )\<close>, where
  \<^verbatim>\<open>minWidth\<close> is the size of one device pixel in user space
  (\<^verbatim>\<open>cairo_device_to_user_distance\<close>); it is kept as the width asked for and the matrix
  the pixel size was taken under.\<close>

datatype cairo_width = LINE_WIDTH real | LINE_WIDTH_MIN_PIXEL real cairo_matrix_t

datatype cairo_paint =
    PAINT_FILL COLOR4D cairo_path
  | PAINT_STROKE COLOR4D cairo_width cairo_path

record cairo_t =
  cr_path :: cairo_path
  cr_source :: COLOR4D
  cr_line_width :: cairo_width
  cr_matrix :: cairo_matrix_t
  cr_saved :: "(COLOR4D \<times> cairo_width \<times> cairo_matrix_t) list"
  cr_target :: nat
  cr_surface :: "(nat \<times> cairo_paint) list"

text \<open>A new context over a surface that already shows \<open>surface\<close>: cairo's defaults
  (no path, opaque black, width 2, the identity matrix).\<close>

definition cairo_create :: "(nat \<times> cairo_paint) list \<Rightarrow> cairo_t" where
  "cairo_create surface =
     \<lparr>cr_path = [], cr_source = COLOR4D 0 0 0 1, cr_line_width = LINE_WIDTH 2, cr_matrix = [],
      cr_saved = [], cr_target = 0, cr_surface = surface\<rparr>"

definition cairo_add :: "cairo_path_data \<Rightarrow> cairo_t \<Rightarrow> cairo_t" where
  "cairo_add d cr = cr\<lparr>cr_path := cr_path cr @ [(cr_matrix cr, d)]\<rparr>"

definition cairo_move_to :: "real \<Rightarrow> real \<Rightarrow> cairo_t \<Rightarrow> cairo_t" where
  "cairo_move_to x y = cairo_add (PATH_MOVE_TO x y)"

definition cairo_line_to :: "real \<Rightarrow> real \<Rightarrow> cairo_t \<Rightarrow> cairo_t" where
  "cairo_line_to x y = cairo_add (PATH_LINE_TO x y)"

definition cairo_curve_to ::
  "real \<Rightarrow> real \<Rightarrow> real \<Rightarrow> real \<Rightarrow> real \<Rightarrow> real \<Rightarrow> cairo_t \<Rightarrow> cairo_t" where
  "cairo_curve_to x1 y1 x2 y2 x3 y3 = cairo_add (PATH_CURVE_TO x1 y1 x2 y2 x3 y3)"

definition cairo_arc :: "real \<Rightarrow> real \<Rightarrow> real \<Rightarrow> real \<Rightarrow> real \<Rightarrow> cairo_t \<Rightarrow> cairo_t" where
  "cairo_arc xc yc radius angle1 angle2 = cairo_add (PATH_ARC xc yc radius angle1 angle2)"

definition cairo_arc_negative ::
  "real \<Rightarrow> real \<Rightarrow> real \<Rightarrow> real \<Rightarrow> real \<Rightarrow> cairo_t \<Rightarrow> cairo_t" where
  "cairo_arc_negative xc yc radius angle1 angle2 =
     cairo_add (PATH_ARC_NEGATIVE xc yc radius angle1 angle2)"

definition cairo_rectangle :: "real \<Rightarrow> real \<Rightarrow> real \<Rightarrow> real \<Rightarrow> cairo_t \<Rightarrow> cairo_t" where
  "cairo_rectangle x y w h = cairo_add (PATH_RECTANGLE x y w h)"

definition cairo_new_sub_path :: "cairo_t \<Rightarrow> cairo_t" where
  "cairo_new_sub_path = cairo_add PATH_NEW_SUB_PATH"

definition cairo_close_path :: "cairo_t \<Rightarrow> cairo_t" where
  "cairo_close_path = cairo_add PATH_CLOSE_PATH"

definition cairo_new_path :: "cairo_t \<Rightarrow> cairo_t" where
  "cairo_new_path cr = cr\<lparr>cr_path := []\<rparr>"

definition cairo_copy_path :: "cairo_t \<Rightarrow> cairo_path_t" where
  "cairo_copy_path cr = (cr_matrix cr, cr_path cr)"

definition cairo_append_path :: "cairo_path_t \<Rightarrow> cairo_t \<Rightarrow> cairo_t" where
  "cairo_append_path p cr =
     cr\<lparr>cr_path := cr_path cr @ map (\<lambda>(m, d). (cr_matrix cr, PATH_COPIED (fst p) m d)) (snd p)\<rparr>"

definition cairo_set_source_rgba :: "real \<Rightarrow> real \<Rightarrow> real \<Rightarrow> real \<Rightarrow> cairo_t \<Rightarrow> cairo_t" where
  "cairo_set_source_rgba red green blue alpha cr = cr\<lparr>cr_source := COLOR4D red green blue alpha\<rparr>"

text \<open>\<^verbatim>\<open>cairo_set_source_rgb\<close> sets an opaque colour.\<close>

definition cairo_set_source_rgb :: "real \<Rightarrow> real \<Rightarrow> real \<Rightarrow> cairo_t \<Rightarrow> cairo_t" where
  "cairo_set_source_rgb red green blue = cairo_set_source_rgba red green blue 1"

definition cairo_set_line_width :: "cairo_width \<Rightarrow> cairo_t \<Rightarrow> cairo_t" where
  "cairo_set_line_width w cr = cr\<lparr>cr_line_width := w\<rparr>"

text \<open>Painting an empty path leaves the surface as it is. \<^verbatim>\<open>cairo_fill\<close> and
  \<^verbatim>\<open>cairo_stroke\<close> clear the path, the \<^verbatim>\<open>_preserve\<close> variants keep it.\<close>

definition cairo_fill_preserve :: "cairo_t \<Rightarrow> cairo_t" where
  "cairo_fill_preserve cr =
     (if cr_path cr = [] then cr
      else cr\<lparr>cr_surface := cr_surface cr @ [(cr_target cr, PAINT_FILL (cr_source cr) (cr_path cr))]\<rparr>)"

definition cairo_stroke_preserve :: "cairo_t \<Rightarrow> cairo_t" where
  "cairo_stroke_preserve cr =
     (if cr_path cr = [] then cr
      else cr\<lparr>cr_surface := cr_surface cr @
                 [(cr_target cr, PAINT_STROKE (cr_source cr) (cr_line_width cr) (cr_path cr))]\<rparr>)"

definition cairo_fill :: "cairo_t \<Rightarrow> cairo_t" where
  "cairo_fill cr = cairo_new_path (cairo_fill_preserve cr)"

definition cairo_stroke :: "cairo_t \<Rightarrow> cairo_t" where
  "cairo_stroke cr = cairo_new_path (cairo_stroke_preserve cr)"

definition cairo_rotate :: "real \<Rightarrow> cairo_t \<Rightarrow> cairo_t" where
  "cairo_rotate angle cr = cr\<lparr>cr_matrix := cr_matrix cr @ [MATRIX_ROTATE angle]\<rparr>"

definition cairo_translate :: "real \<Rightarrow> real \<Rightarrow> cairo_t \<Rightarrow> cairo_t" where
  "cairo_translate tx ty cr = cr\<lparr>cr_matrix := cr_matrix cr @ [MATRIX_TRANSLATE tx ty]\<rparr>"

definition cairo_scale :: "real \<Rightarrow> real \<Rightarrow> cairo_t \<Rightarrow> cairo_t" where
  "cairo_scale sx sy cr = cr\<lparr>cr_matrix := cr_matrix cr @ [MATRIX_SCALE sx sy]\<rparr>"

definition cairo_transform :: "cairo_matrix_op \<Rightarrow> cairo_t \<Rightarrow> cairo_t" where
  "cairo_transform m cr = cr\<lparr>cr_matrix := cr_matrix cr @ [m]\<rparr>"

definition cairo_set_matrix :: "cairo_matrix_op \<Rightarrow> cairo_t \<Rightarrow> cairo_t" where
  "cairo_set_matrix m cr = cr\<lparr>cr_matrix := [m]\<rparr>"

text \<open>\<^verbatim>\<open>cairo_save\<close> pushes the graphics state (not the path), \<^verbatim>\<open>cairo_restore\<close>
  pops it. A restore without a save is an error of the caller, after which cairo
  ignores the context; the model leaves the context as it is there.\<close>

definition cairo_save :: "cairo_t \<Rightarrow> cairo_t" where
  "cairo_save cr = cr\<lparr>cr_saved := (cr_source cr, cr_line_width cr, cr_matrix cr) # cr_saved cr\<rparr>"

definition cairo_restore :: "cairo_t \<Rightarrow> cairo_t" where
  "cairo_restore cr =
     (case cr_saved cr of
        [] \<Rightarrow> cr
      | (src, w, m) # rest \<Rightarrow>
          cr\<lparr>cr_source := src, cr_line_width := w, cr_matrix := m, cr_saved := rest\<rparr>)"

subsection \<open>Groups and the state of the GAL\<close>

text \<open>A \<^verbatim>\<open>GROUP_ELEMENT\<close> is a command with the operands it uses: the tagged union of
  the source as a datatype. The four doubles of a colour command are a \<^verbatim>\<open>COLOR4D\<close>.\<close>

datatype GROUP_ELEMENT =
    CMD_SET_FILL bool
  | CMD_SET_STROKE bool
  | CMD_SET_FILLCOLOR COLOR4D
  | CMD_SET_STROKECOLOR COLOR4D
  | CMD_SET_LINE_WIDTH real
  | CMD_STROKE_PATH cairo_path_t
  | CMD_FILL_PATH cairo_path_t
  | CMD_ROTATE real
  | CMD_TRANSLATE real real
  | CMD_SCALE real real
  | CMD_SAVE
  | CMD_RESTORE
  | CMD_CALL_GROUP int

type_synonym GROUP = "GROUP_ELEMENT list"

datatype RENDER_TARGET = TARGET_CACHED | TARGET_NONCACHED | TARGET_OVERLAY

text \<open>
  The members of \<^verbatim>\<open>CAIRO_GAL\<close> the modelled functions use. \<open>groups\<close> is the
  associative container from handles to groups, a list of pairs with distinct keys;
  \<open>currentGroup\<close>, a pointer into it, is the handle it points at. \<open>destroyedPaths\<close>
  collects the paths given to \<^verbatim>\<open>cairo_path_destroy\<close>. The window, the bitmaps and
  the blit to the screen are not modelled. After \<^verbatim>\<open>deinitSurface\<close> the context is
  destroyed in the source; the record keeps its last value, which stands for the
  bitmap the next context is created over.
\<close>

record CAIRO_GAL =
  isGrouping :: bool
  isInitialized :: bool
  validCompositor :: bool
  isElementAdded :: bool
  groupCounter :: nat
  groups :: "(int \<times> GROUP) list"
  currentGroup :: int
  isFillEnabled :: bool
  isStrokeEnabled :: bool
  fillColor :: COLOR4D
  strokeColor :: COLOR4D
  lineWidth :: real
  layerDepth :: real
  backgroundColor :: COLOR4D
  screenSize :: "int \<times> int"
  worldScreenMatrix :: cairo_matrix_op
  mainBuffer :: nat
  overlayBuffer :: nat
  currentTarget :: RENDER_TARGET
  currentContext :: cairo_t
  destroyedPaths :: "cairo_path_t list"

definition on_context :: "(cairo_t \<Rightarrow> cairo_t) \<Rightarrow> CAIRO_GAL \<Rightarrow> CAIRO_GAL" where
  "on_context f s = s\<lparr>currentContext := f (currentContext s)\<rparr>"

text \<open>The container operations the source uses. \<^verbatim>\<open>groups[h]\<close> inserts an empty
  group when \<open>h\<close> is not a key. \<^verbatim>\<open>currentGroup->push_back\<close> appends to the group
  the pointer points at; when that group has been erased the pointer dangles and the
  source has no defined behaviour: the model appends nothing there.\<close>

definition groups_contains :: "int \<Rightarrow> (int \<times> GROUP) list \<Rightarrow> bool" where
  "groups_contains h gs = (map_of gs h \<noteq> None)"

definition groups_index :: "int \<Rightarrow> (int \<times> GROUP) list \<Rightarrow> (int \<times> GROUP) list" where
  "groups_index h gs = (if groups_contains h gs then gs else gs @ [(h, [])])"

definition groups_at :: "int \<Rightarrow> (int \<times> GROUP) list \<Rightarrow> GROUP" where
  "groups_at h gs = (case map_of gs h of None \<Rightarrow> [] | Some g \<Rightarrow> g)"

definition groups_insert :: "int \<Rightarrow> GROUP \<Rightarrow> (int \<times> GROUP) list \<Rightarrow> (int \<times> GROUP) list" where
  "groups_insert h g gs = (if groups_contains h gs then gs else gs @ [(h, g)])"

definition push_back :: "GROUP_ELEMENT \<Rightarrow> CAIRO_GAL \<Rightarrow> CAIRO_GAL" where
  "push_back e s = s\<lparr>groups := AList.map_entry (currentGroup s) (\<lambda>g. g @ [e]) (groups s)\<rparr>"

subsection \<open>Committing the path\<close>

definition flushPath :: "CAIRO_GAL \<Rightarrow> CAIRO_GAL" where
  "flushPath s =
     (let s1 = (if isFillEnabled s then
                  (let s' = on_context (cairo_set_source_rgba (col_r (fillColor s)) (col_g (fillColor s))
                                          (col_b (fillColor s)) (col_a (fillColor s))) s
                   in if isStrokeEnabled s then on_context cairo_fill_preserve s'
                      else on_context cairo_fill s')
                else s)
      in if isStrokeEnabled s then
           on_context cairo_stroke
             (on_context (cairo_set_source_rgba (col_r (strokeColor s)) (col_g (strokeColor s))
                            (col_b (strokeColor s)) (col_a (strokeColor s))) s1)
         else s1)"

definition storePath :: "CAIRO_GAL \<Rightarrow> CAIRO_GAL" where
  "storePath s =
     (if isElementAdded s then
        (let s0 = s\<lparr>isElementAdded := False\<rparr>;
             s3 = (if \<not> isGrouping s0 then
                     (let s1 = (if isFillEnabled s0 then
                                  on_context cairo_fill_preserve
                                    (on_context (cairo_set_source_rgb (col_r (fillColor s0))
                                                   (col_g (fillColor s0)) (col_b (fillColor s0))) s0)
                                else s0)
                      in if isStrokeEnabled s0 then
                           on_context cairo_stroke_preserve
                             (on_context (cairo_set_source_rgb (col_r (strokeColor s0))
                                            (col_g (strokeColor s0)) (col_b (strokeColor s0))) s1)
                         else s1)
                   else
                     (let s1 = (if isStrokeEnabled s0
                                then push_back (CMD_STROKE_PATH (cairo_copy_path (currentContext s0))) s0
                                else s0)
                      in if isFillEnabled s0
                         then push_back (CMD_FILL_PATH (cairo_copy_path (currentContext s1))) s1
                         else s1))
         in on_context cairo_new_path s3)
      else s)"

definition Flush :: "CAIRO_GAL \<Rightarrow> CAIRO_GAL" where
  "Flush s = storePath s"

subsection \<open>State setters\<close>

definition SetIsFill :: "bool \<Rightarrow> CAIRO_GAL \<Rightarrow> CAIRO_GAL" where
  "SetIsFill aIsFillEnabled s =
     (let s1 = (storePath s)\<lparr>isFillEnabled := aIsFillEnabled\<rparr>
      in if isGrouping s1 then push_back (CMD_SET_FILL aIsFillEnabled) s1 else s1)"

definition SetIsStroke :: "bool \<Rightarrow> CAIRO_GAL \<Rightarrow> CAIRO_GAL" where
  "SetIsStroke aIsStrokeEnabled s =
     (let s1 = (storePath s)\<lparr>isStrokeEnabled := aIsStrokeEnabled\<rparr>
      in if isGrouping s1 then push_back (CMD_SET_STROKE aIsStrokeEnabled) s1 else s1)"

definition SetStrokeColor :: "COLOR4D \<Rightarrow> CAIRO_GAL \<Rightarrow> CAIRO_GAL" where
  "SetStrokeColor aColor s =
     (let s1 = (storePath s)\<lparr>strokeColor := aColor\<rparr>
      in if isGrouping s1 then push_back (CMD_SET_STROKECOLOR (strokeColor s1)) s1 else s1)"

definition SetFillColor :: "COLOR4D \<Rightarrow> CAIRO_GAL \<Rightarrow> CAIRO_GAL" where
  "SetFillColor aColor s =
     (let s1 = (storePath s)\<lparr>fillColor := aColor\<rparr>
      in if isGrouping s1 then push_back (CMD_SET_FILLCOLOR (fillColor s1)) s1 else s1)"

definition SetLineWidth :: "real \<Rightarrow> CAIRO_GAL \<Rightarrow> CAIRO_GAL" where
  "SetLineWidth aLineWidth s =
     (let s1 = (storePath s)\<lparr>lineWidth := aLineWidth\<rparr>
      in if isGrouping s1 then push_back (CMD_SET_LINE_WIDTH aLineWidth) s1
         else on_context (\<lambda>cr. cairo_set_line_width (LINE_WIDTH_MIN_PIXEL aLineWidth (cr_matrix cr)) cr) s1)"

text \<open>Modelled from the spec: \<^verbatim>\<open>GAL::SetLayerDepth\<close> of the base class, which is not
  among the sources, stores the layer depth of the drawing state.\<close>

definition GAL_SetLayerDepth :: "real \<Rightarrow> CAIRO_GAL \<Rightarrow> CAIRO_GAL" where
  "GAL_SetLayerDepth aLayerDepth s = s\<lparr>layerDepth := aLayerDepth\<rparr>"

definition SetLayerDepth :: "real \<Rightarrow> CAIRO_GAL \<Rightarrow> CAIRO_GAL" where
  "SetLayerDepth aLayerDepth s =
     (let s1 = GAL_SetLayerDepth aLayerDepth s
      in if isInitialized s1 then storePath s1 else s1)"

text \<open>\<^verbatim>\<open>aTransformation.m_data[i][j]\<close> is \<open>m_data i j\<close>.\<close>

definition Transform :: "(nat \<Rightarrow> nat \<Rightarrow> real) \<Rightarrow> CAIRO_GAL \<Rightarrow> CAIRO_GAL" where
  "Transform m_data s =
     (let cairoTransformation =
            MATRIX_MULTIPLY (m_data 0 0) (m_data 1 0) (m_data 0 1) (m_data 1 1) (m_data 0 2) (m_data 1 2)
      in on_context (cairo_transform cairoTransformation) s)"

definition Rotate :: "real \<Rightarrow> CAIRO_GAL \<Rightarrow> CAIRO_GAL" where
  "Rotate aAngle s =
     (let s1 = storePath s
      in if isGrouping s1 then push_back (CMD_ROTATE aAngle) s1
         else on_context (cairo_rotate aAngle) s1)"

definition Translate :: "VECTOR2D \<Rightarrow> CAIRO_GAL \<Rightarrow> CAIRO_GAL" where
  "Translate aTranslation s =
     (let s1 = storePath s
      in if isGrouping s1 then push_back (CMD_TRANSLATE (fst aTranslation) (snd aTranslation)) s1
         else on_context (cairo_translate (fst aTranslation) (snd aTranslation)) s1)"

definition Scale :: "VECTOR2D \<Rightarrow> CAIRO_GAL \<Rightarrow> CAIRO_GAL" where
  "Scale aScale s =
     (let s1 = storePath s
      in if isGrouping s1 then push_back (CMD_SCALE (fst aScale) (snd aScale)) s1
         else on_context (cairo_scale (fst aScale) (snd aScale)) s1)"

definition Save :: "CAIRO_GAL \<Rightarrow> CAIRO_GAL" where
  "Save s =
     (let s1 = storePath s
      in if isGrouping s1 then push_back CMD_SAVE s1 else on_context cairo_save s1)"

definition Restore :: "CAIRO_GAL \<Rightarrow> CAIRO_GAL" where
  "Restore s =
     (let s1 = storePath s
      in if isGrouping s1 then push_back CMD_RESTORE s1 else on_context cairo_restore s1)"

subsection \<open>Primitives\<close>

definition DrawLine :: "VECTOR2D \<Rightarrow> VECTOR2D \<Rightarrow> CAIRO_GAL \<Rightarrow> CAIRO_GAL" where
  "DrawLine aStartPoint aEndPoint s =
     (let s1 = on_context (cairo_move_to (fst aStartPoint) (snd aStartPoint)) s;
          s2 = on_context (cairo_line_to (fst aEndPoint) (snd aEndPoint)) s1;
          s3 = flushPath s2
      in s3\<lparr>isElementAdded := True\<rparr>)"

definition DrawSegment :: "VECTOR2D \<Rightarrow> VECTOR2D \<Rightarrow> real \<Rightarrow> CAIRO_GAL \<Rightarrow> CAIRO_GAL" where
  "DrawSegment aStartPoint aEndPoint aWidth s =
     (let s' =
        (if isFillEnabled s then
           (let s1 = SetLineWidth aWidth s;
                s2 = on_context (cairo_move_to (fst aStartPoint) (snd aStartPoint)) s1;
                s3 = on_context (cairo_line_to (fst aEndPoint) (snd aEndPoint)) s2;
                s4 = on_context (cairo_set_source_rgba (col_r (fillColor s3)) (col_g (fillColor s3))
                                   (col_b (fillColor s3)) (col_a (fillColor s3))) s3
            in on_context cairo_stroke s4)
         else
           (let startEndVector = (fst aEndPoint - fst aStartPoint, snd aEndPoint - snd aStartPoint);
                lineAngle = Arg (Complex (fst startEndVector) (snd startEndVector));
                lineLength = sqrt ((fst startEndVector)\<^sup>2 + (snd startEndVector)\<^sup>2);
                s1 = on_context cairo_save s;
                s2 = on_context (cairo_set_source_rgba (col_r (strokeColor s1)) (col_g (strokeColor s1))
                                   (col_b (strokeColor s1)) (col_a (strokeColor s1))) s1;
                s3 = on_context (cairo_translate (fst aStartPoint) (snd aStartPoint)) s2;
                s4 = on_context (cairo_rotate lineAngle) s3;
                s5 = on_context (cairo_arc 0 0 (aWidth / 2) (pi / 2) (3 * pi / 2)) s4;
                s6 = on_context (cairo_arc lineLength 0 (aWidth / 2) (- pi / 2) (pi / 2)) s5;
                s7 = on_context (cairo_move_to 0 (aWidth / 2)) s6;
                s8 = on_context (cairo_line_to lineLength (aWidth / 2)) s7;
                s9 = on_context (cairo_move_to 0 (- aWidth / 2)) s8;
                s10 = on_context (cairo_line_to lineLength (- aWidth / 2)) s9;
                s11 = on_context cairo_restore s10
            in flushPath s11))
      in s'\<lparr>isElementAdded := True\<rparr>)"

definition DrawCircle :: "VECTOR2D \<Rightarrow> real \<Rightarrow> CAIRO_GAL \<Rightarrow> CAIRO_GAL" where
  "DrawCircle aCenterPoint aRadius s =
     (let s1 = on_context cairo_new_sub_path s;
          s2 = on_context (cairo_arc (fst aCenterPoint) (snd aCenterPoint) aRadius 0 (2 * pi)) s1;
          s3 = flushPath s2
      in s3\<lparr>isElementAdded := True\<rparr>)"

text \<open>\<^verbatim>\<open>SWAP( a, >, b )\<close> exchanges the two angles when the first is the larger.\<close>

definition DrawArc :: "VECTOR2D \<Rightarrow> real \<Rightarrow> real \<Rightarrow> real \<Rightarrow> CAIRO_GAL \<Rightarrow> CAIRO_GAL" where
  "DrawArc aCenterPoint aRadius aStartAngle0 aEndAngle0 s =
     (let aStartAngle = (if aStartAngle0 > aEndAngle0 then aEndAngle0 else aStartAngle0);
          aEndAngle = (if aStartAngle0 > aEndAngle0 then aStartAngle0 else aEndAngle0);
          s1 = on_context cairo_new_sub_path s;
          s2 = on_context (cairo_arc (fst aCenterPoint) (snd aCenterPoint) aRadius aStartAngle aEndAngle) s1;
          s3 = (if isFillEnabled s2 then
                  (let startPoint = (cos aStartAngle * aRadius + fst aCenterPoint,
                                     sin aStartAngle * aRadius + snd aCenterPoint);
                       endPoint = (cos aEndAngle * aRadius + fst aCenterPoint,
                                   sin aEndAngle * aRadius + snd aCenterPoint);
                       t1 = on_context (cairo_move_to (fst aCenterPoint) (snd aCenterPoint)) s2;
                       t2 = on_context (cairo_line_to (fst startPoint) (snd startPoint)) t1;
                       t3 = on_context (cairo_line_to (fst endPoint) (snd endPoint)) t2
                   in on_context cairo_close_path t3)
                else s2);
          s4 = flushPath s3
      in s4\<lparr>isElementAdded := True\<rparr>)"

definition DrawArcSegment ::
  "VECTOR2D \<Rightarrow> real \<Rightarrow> real \<Rightarrow> real \<Rightarrow> real \<Rightarrow> CAIRO_GAL \<Rightarrow> CAIRO_GAL" where
  "DrawArcSegment aCenterPoint aRadius aStartAngle0 aEndAngle0 aWidth s =
     (let aStartAngle = (if aStartAngle0 > aEndAngle0 then aEndAngle0 else aStartAngle0);
          aEndAngle = (if aStartAngle0 > aEndAngle0 then aStartAngle0 else aEndAngle0);
          s' =
            (if isFillEnabled s then
               (let s1 = on_context (cairo_arc (fst aCenterPoint) (snd aCenterPoint) aRadius
                                       aStartAngle aEndAngle) s;
                    s2 = on_context (cairo_set_source_rgba (col_r (fillColor s1)) (col_g (fillColor s1))
                                       (col_b (fillColor s1)) (col_a (fillColor s1))) s1
                in on_context cairo_stroke s2)
             else
               (let width = aWidth / 2;
                    startPoint = (cos aStartAngle * aRadius, sin aStartAngle * aRadius);
                    endPoint = (cos aEndAngle * aRadius, sin aEndAngle * aRadius);
                    s1 = on_context cairo_save s;
                    s2 = on_context (cairo_set_source_rgba (col_r (strokeColor s1))
                                       (col_g (strokeColor s1)) (col_b (strokeColor s1))
                                       (col_a (strokeColor s1))) s1;
                    s3 = on_context (cairo_translate (fst aCenterPoint) (snd aCenterPoint)) s2;
                    s4 = on_context cairo_new_sub_path s3;
                    s5 = on_context (cairo_arc 0 0 (aRadius - width) aStartAngle aEndAngle) s4;
                    s6 = on_context cairo_new_sub_path s5;
                    s7 = on_context (cairo_arc 0 0 (aRadius + width) aStartAngle aEndAngle) s6;
                    s8 = on_context cairo_new_sub_path s7;
                    s9 = on_context (cairo_arc_negative (fst startPoint) (snd startPoint) width
                                       aStartAngle (aStartAngle + pi)) s8;
                    s10 = on_context cairo_new_sub_path s9;
                    s11 = on_context (cairo_arc (fst endPoint) (snd endPoint) width aEndAngle
                                        (aEndAngle + pi)) s10;
                    s12 = on_context cairo_restore s11
                in flushPath s12))
      in s'\<lparr>isElementAdded := True\<rparr>)"

definition DrawRectangle :: "VECTOR2D \<Rightarrow> VECTOR2D \<Rightarrow> CAIRO_GAL \<Rightarrow> CAIRO_GAL" where
  "DrawRectangle aStartPoint aEndPoint s =
     (let diagonalPointA = (fst aEndPoint, snd aStartPoint);
          diagonalPointB = (fst aStartPoint, snd aEndPoint);
          s1 = on_context (cairo_move_to (fst aStartPoint) (snd aStartPoint)) s;
          s2 = on_context (cairo_line_to (fst diagonalPointA) (snd diagonalPointA)) s1;
          s3 = on_context (cairo_line_to (fst aEndPoint) (snd aEndPoint)) s2;
          s4 = on_context (cairo_line_to (fst diagonalPointB) (snd diagonalPointB)) s3;
          s5 = on_context cairo_close_path s4;
          s6 = flushPath s5
      in s6\<lparr>isElementAdded := True\<rparr>)"

definition DrawCurve ::
  "VECTOR2D \<Rightarrow> VECTOR2D \<Rightarrow> VECTOR2D \<Rightarrow> VECTOR2D \<Rightarrow> CAIRO_GAL \<Rightarrow> CAIRO_GAL" where
  "DrawCurve aStartPoint aControlPointA aControlPointB aEndPoint s =
     (let s1 = on_context (cairo_move_to (fst aStartPoint) (snd aStartPoint)) s;
          s2 = on_context (cairo_curve_to (fst aControlPointA) (snd aControlPointA)
                             (fst aControlPointB) (snd aControlPointB)
                             (fst aEndPoint) (snd aEndPoint)) s1;
          s3 = on_context (cairo_line_to (fst aEndPoint) (snd aEndPoint)) s2;
          s4 = flushPath s3
      in s4\<lparr>isElementAdded := True\<rparr>)"

text \<open>A \<^verbatim>\<open>SHAPE_LINE_CHAIN\<close>: its points (integer vectors) and whether it is closed.
  \<^verbatim>\<open>CPoint( i )\<close> wraps the index around the number of points, which the loop uses
  to come back to the first point of a closed chain.\<close>

record SHAPE_LINE_CHAIN =
  chain_Points :: "(int \<times> int) list"
  chain_Closed :: bool

definition CPoint :: "SHAPE_LINE_CHAIN \<Rightarrow> nat \<Rightarrow> int \<times> int" where
  "CPoint aLineChain i = chain_Points aLineChain ! (i mod length (chain_Points aLineChain))"

definition drawPoly :: "SHAPE_LINE_CHAIN \<Rightarrow> CAIRO_GAL \<Rightarrow> CAIRO_GAL" where
  "drawPoly aLineChain s =
     (if length (chain_Points aLineChain) < 2 then s
      else
        (let numPoints = (if chain_Closed aLineChain then length (chain_Points aLineChain) + 1
                          else length (chain_Points aLineChain));
             start = CPoint aLineChain 0;
             s1 = on_context (cairo_move_to (real_of_int (fst start)) (real_of_int (snd start))) s;
             s2 = fold (\<lambda>i. on_context (cairo_line_to (real_of_int (fst (CPoint aLineChain i)))
                                          (real_of_int (snd (CPoint aLineChain i)))))
                    [1..<numPoints] s1;
             s3 = flushPath s2
         in s3\<lparr>isElementAdded := True\<rparr>))"

text \<open>\<^verbatim>\<open>DrawPolygon\<close> of a \<^verbatim>\<open>SHAPE_POLY_SET\<close>, given by its outlines.\<close>

definition DrawPolygon :: "SHAPE_LINE_CHAIN list \<Rightarrow> CAIRO_GAL \<Rightarrow> CAIRO_GAL" where
  "DrawPolygon aPolySet s = fold drawPoly aPolySet s"

subsection \<open>The surface and the compositor\<close>

definition ClearScreen :: "COLOR4D \<Rightarrow> CAIRO_GAL \<Rightarrow> CAIRO_GAL" where
  "ClearScreen aColor s =
     (let s1 = s\<lparr>backgroundColor := aColor\<rparr>;
          s2 = on_context (cairo_set_source_rgb (col_r aColor) (col_g aColor) (col_b aColor)) s1;
          s3 = on_context (cairo_rectangle 0 0 (real_of_int (fst (screenSize s2)))
                             (real_of_int (snd (screenSize s2)))) s2
      in on_context cairo_fill s3)"

text \<open>\<^verbatim>\<open>initSurface\<close>: the new context is created over the bitmap, which shows what
  was painted before. \<^verbatim>\<open>ComputeWorldScreenMatrix\<close> belongs to the base class; the
  matrix it leaves in \<^verbatim>\<open>worldScreenMatrix\<close>, which the source copies into
  \<^verbatim>\<open>cairoWorldScreenMatrix\<close>, is a member of the state here. The line join and the
  line cap are set to round for every context and are not part of the model.\<close>

definition initSurface :: "CAIRO_GAL \<Rightarrow> CAIRO_GAL" where
  "initSurface s =
     (if isInitialized s then s
      else
        (let s1 = s\<lparr>currentContext := cairo_create (cr_surface (currentContext s))\<rparr>;
             s2 = ClearScreen (backgroundColor s1) s1;
             s3 = on_context (cairo_set_matrix (worldScreenMatrix s2)) s2;
             s4 = on_context cairo_new_path s3
         in s4\<lparr>isElementAdded := True, lineWidth := 0, isInitialized := True\<rparr>))"

definition deinitSurface :: "CAIRO_GAL \<Rightarrow> CAIRO_GAL" where
  "deinitSurface s = (if \<not> isInitialized s then s else s\<lparr>isInitialized := False\<rparr>)"

text \<open>Modelled from the spec: \<^verbatim>\<open>CAIRO_COMPOSITOR\<close> is not among the sources. It owns
  the buffers, \<^verbatim>\<open>CreateBuffer\<close> hands out the handles 1, 2, ... and
  \<^verbatim>\<open>SetBuffer\<close> makes a buffer the one the context paints to.\<close>

definition compositor_SetBuffer :: "nat \<Rightarrow> CAIRO_GAL \<Rightarrow> CAIRO_GAL" where
  "compositor_SetBuffer aBufferHandle s = on_context (\<lambda>cr. cr\<lparr>cr_target := aBufferHandle\<rparr>) s"

definition setCompositor :: "CAIRO_GAL \<Rightarrow> CAIRO_GAL" where
  "setCompositor s = s\<lparr>mainBuffer := 1, overlayBuffer := 2, validCompositor := True\<rparr>"

definition BeginDrawing :: "CAIRO_GAL \<Rightarrow> CAIRO_GAL" where
  "BeginDrawing s =
     (let s1 = initSurface s;
          s2 = (if \<not> validCompositor s1 then setCompositor s1 else s1)
      in compositor_SetBuffer (mainBuffer s2) s2)"

text \<open>\<^verbatim>\<open>EndDrawing\<close>: the merge of the buffers and the blit to the window are outside
  the model.\<close>

definition EndDrawing :: "CAIRO_GAL \<Rightarrow> CAIRO_GAL" where
  "EndDrawing s = deinitSurface (Flush s)"

definition SetTarget :: "RENDER_TARGET \<Rightarrow> CAIRO_GAL \<Rightarrow> CAIRO_GAL" where
  "SetTarget aTarget s =
     (if \<not> validCompositor s then s
      else
        (let s1 = (if isInitialized s then storePath s else s);
             s2 = (case aTarget of
                     TARGET_OVERLAY \<Rightarrow> compositor_SetBuffer (overlayBuffer s1) s1
                   | _ \<Rightarrow> compositor_SetBuffer (mainBuffer s1) s1)
         in s2\<lparr>currentTarget := aTarget\<rparr>))"

subsection \<open>Groups\<close>

text \<open>\<^verbatim>\<open>getNewGroupNumber\<close>: the loop \<^verbatim>\<open>while( groups.find( groupCounter ) !=
  groups.end() ) groupCounter++\<close> ends, since the container is finite. The counter is an
  \<^verbatim>\<open>unsigned int\<close>; its wrap-around after \<open>2^32\<close> groups is outside the model,
  and so is the \<^verbatim>\<open>wxASSERT_MSG\<close> on a full container, a diagnostic of debug
  builds that does not change what the function returns.\<close>

function findFreeGroupNumber :: "(int \<times> GROUP) list \<Rightarrow> nat \<Rightarrow> nat" where
  "findFreeGroupNumber gs n =
     (if groups_contains (int n) gs then findFreeGroupNumber gs (Suc n) else n)"
  by pat_completeness auto
termination
proof (relation "measure (\<lambda>(gs, n). Suc (nat (Max (insert 0 (fst ` set gs)))) - n)")
  show "wf (measure (\<lambda>(gs :: (int \<times> GROUP) list, n). Suc (nat (Max (insert 0 (fst ` set gs)))) - n))"
    by simp
next
  fix gs :: "(int \<times> GROUP) list" and n :: nat
  assume "groups_contains (int n) gs"
  then have "int n \<in> fst ` set gs"
    by (auto simp: groups_contains_def dest: map_of_SomeD intro: rev_image_eqI)
  then have "int n \<le> Max (insert 0 (fst ` set gs))"
    by (intro Max_ge) auto
  then have "n \<le> nat (Max (insert 0 (fst ` set gs)))"
    by linarith
  then show "((gs, Suc n), (gs, n)) \<in> measure (\<lambda>(gs, n). Suc (nat (Max (insert 0 (fst ` set gs)))) - n)"
    by simp
qed

definition getNewGroupNumber :: "CAIRO_GAL \<Rightarrow> nat \<times> CAIRO_GAL" where
  "getNewGroupNumber s =
     (let n = findFreeGroupNumber (groups s) (groupCounter s)
      in (n, s\<lparr>groupCounter := Suc n\<rparr>))"

definition BeginGroup :: "CAIRO_GAL \<Rightarrow> int \<times> CAIRO_GAL" where
  "BeginGroup s =
     (let s1 = initSurface s;
          s2 = storePath s1;
          (n, s3) = getNewGroupNumber s2;
          groupNumber = int n;
          s4 = s3\<lparr>groups := groups_insert groupNumber [] (groups s3)\<rparr>;
          s5 = s4\<lparr>groups := groups_index groupNumber (groups s4), currentGroup := groupNumber\<rparr>
      in (groupNumber, s5\<lparr>isGrouping := True\<rparr>))"

definition EndGroup :: "CAIRO_GAL \<Rightarrow> CAIRO_GAL" where
  "EndGroup s = deinitSurface ((storePath s)\<lparr>isGrouping := False\<rparr>)"

text \<open>One command of the virtual machine of \<^verbatim>\<open>DrawGroup\<close>, but for
  \<^verbatim>\<open>CMD_CALL_GROUP\<close>, which recurses.\<close>

fun execCommand :: "GROUP_ELEMENT \<Rightarrow> CAIRO_GAL \<Rightarrow> CAIRO_GAL" where
  "execCommand (CMD_SET_FILL b) s = s\<lparr>isFillEnabled := b\<rparr>"
| "execCommand (CMD_SET_STROKE b) s = s\<lparr>isStrokeEnabled := b\<rparr>"
| "execCommand (CMD_SET_FILLCOLOR c) s =
     s\<lparr>fillColor := COLOR4D (col_r c) (col_g c) (col_b c) (col_a c)\<rparr>"
| "execCommand (CMD_SET_STROKECOLOR c) s =
     s\<lparr>strokeColor := COLOR4D (col_r c) (col_g c) (col_b c) (col_a c)\<rparr>"
| "execCommand (CMD_SET_LINE_WIDTH w) s =
     on_context (\<lambda>cr. cairo_set_line_width (LINE_WIDTH_MIN_PIXEL w (cr_matrix cr)) cr) s"
| "execCommand (CMD_STROKE_PATH p) s =
     on_context cairo_stroke
       (on_context (cairo_append_path p)
          (on_context (cairo_set_source_rgb (col_r (strokeColor s)) (col_g (strokeColor s))
                         (col_b (strokeColor s))) s))"
| "execCommand (CMD_FILL_PATH p) s =
     on_context cairo_fill
       (on_context (cairo_append_path p)
          (on_context (cairo_set_source_rgb (col_r (fillColor s)) (col_g (fillColor s))
                         (col_b (fillColor s))) s))"
| "execCommand (CMD_ROTATE a) s = on_context (cairo_rotate a) s"
| "execCommand (CMD_TRANSLATE x y) s = on_context (cairo_translate x y) s"
| "execCommand (CMD_SCALE x y) s = on_context (cairo_scale x y) s"
| "execCommand CMD_SAVE s = on_context cairo_save s"
| "execCommand CMD_RESTORE s = on_context cairo_restore s"
| "execCommand (CMD_CALL_GROUP g) s = s"

text \<open>
  \<^verbatim>\<open>DrawGroup\<close> calls itself for \<^verbatim>\<open>CMD_CALL_GROUP\<close> and nothing in the source
  bounds the depth, so the model carries fuel: every nested call uses one unit, and
  \<open>None\<close> is a replay that needs more nesting than the fuel allows. \<open>runGroup\<close> is the
  loop over the commands; for a call it runs the prelude of \<^verbatim>\<open>DrawGroup\<close>
  (\<^verbatim>\<open>storePath\<close>, then \<^verbatim>\<open>groups[aGroupNumber]\<close>) and the loop of the called group.
  The loop reads the commands once: nothing it executes appends to the group it runs.
\<close>

fun runGroup :: "nat \<Rightarrow> GROUP \<Rightarrow> CAIRO_GAL \<Rightarrow> CAIRO_GAL option" where
  "runGroup n [] s = Some s"
| "runGroup n (CMD_CALL_GROUP g # es) s =
     (case n of
        0 \<Rightarrow> None
      | Suc m \<Rightarrow>
          (let s1 = storePath s;
               s2 = s1\<lparr>groups := groups_index g (groups s1)\<rparr>
           in case runGroup m (groups_at g (groups s2)) s2 of
                None \<Rightarrow> None
              | Some s3 \<Rightarrow> runGroup n es s3))"
| "runGroup n (e # es) s = runGroup n es (execCommand e s)"

definition DrawGroup :: "nat \<Rightarrow> int \<Rightarrow> CAIRO_GAL \<Rightarrow> CAIRO_GAL option" where
  "DrawGroup n aGroupNumber s =
     (let s1 = storePath s;
          s2 = s1\<lparr>groups := groups_index aGroupNumber (groups s1)\<rparr>
      in runGroup n (groups_at aGroupNumber (groups s2)) s2)"

fun recolor :: "COLOR4D \<Rightarrow> GROUP_ELEMENT \<Rightarrow> GROUP_ELEMENT" where
  "recolor aNewColor (CMD_SET_FILLCOLOR c) =
     CMD_SET_FILLCOLOR (COLOR4D (col_r aNewColor) (col_g aNewColor) (col_b aNewColor) (col_a aNewColor))"
| "recolor aNewColor (CMD_SET_STROKECOLOR c) =
     CMD_SET_STROKECOLOR (COLOR4D (col_r aNewColor) (col_g aNewColor) (col_b aNewColor) (col_a aNewColor))"
| "recolor aNewColor e = e"

definition ChangeGroupColor :: "int \<Rightarrow> COLOR4D \<Rightarrow> CAIRO_GAL \<Rightarrow> CAIRO_GAL" where
  "ChangeGroupColor aGroupNumber aNewColor s =
     (let s1 = storePath s;
          s2 = s1\<lparr>groups := groups_index aGroupNumber (groups s1)\<rparr>
      in s2\<lparr>groups := AList.map_entry aGroupNumber (map (recolor aNewColor)) (groups s2)\<rparr>)"

definition ChangeGroupDepth :: "int \<Rightarrow> int \<Rightarrow> CAIRO_GAL \<Rightarrow> CAIRO_GAL" where
  "ChangeGroupDepth aGroupNumber aDepth s = s"

fun ownedPath :: "GROUP_ELEMENT \<Rightarrow> cairo_path_t list" where
  "ownedPath (CMD_FILL_PATH p) = [p]"
| "ownedPath (CMD_STROKE_PATH p) = [p]"
| "ownedPath e = []"

definition DeleteGroup :: "int \<Rightarrow> CAIRO_GAL \<Rightarrow> CAIRO_GAL" where
  "DeleteGroup aGroupNumber s =
     (let s1 = storePath s;
          s2 = s1\<lparr>groups := groups_index aGroupNumber (groups s1)\<rparr>;
          s3 = s2\<lparr>destroyedPaths := destroyedPaths s2 @
                                      concat (map ownedPath (groups_at aGroupNumber (groups s2)))\<rparr>
      in s3\<lparr>groups := AList.delete aGroupNumber (groups s3)\<rparr>)"

text \<open>\<^verbatim>\<open>for( int i = groups.size() - 1; i >= 0; --i ) DeleteGroup( i )\<close>: the size is
  read once, before the loop.\<close>

definition ClearCache :: "CAIRO_GAL \<Rightarrow> CAIRO_GAL" where
  "ClearCache s = fold (\<lambda>i. DeleteGroup (int i)) (rev [0..<length (groups s)]) s"

subsection \<open>Reading a replay\<close>

text \<open>The groups a command list calls; a list that calls none is replayed by its own
  commands alone.\<close>

fun calls :: "GROUP \<Rightarrow> int list" where
  "calls [] = []"
| "calls (CMD_CALL_GROUP g # es) = g # calls es"
| "calls (e # es) = calls es"





text \<open>\<open>flushed_first s s'\<close>: the state \<open>s'\<close> comes from \<open>s\<close> by an operation that
  committed the pending path of \<open>s\<close> before anything else. Nothing is pending in \<open>s'\<close>;
  the surface shows what \<^verbatim>\<open>storePath\<close> paints in \<open>s\<close>, under the state of \<open>s\<close>, and
  nothing more; the path is the one \<^verbatim>\<open>storePath\<close> leaves, which is empty when
  something was pending.\<close>

definition flushed_first :: "CAIRO_GAL \<Rightarrow> CAIRO_GAL \<Rightarrow> bool" where
  "flushed_first s s' \<longleftrightarrow>
     \<not> isElementAdded s'
   \<and> cr_surface (currentContext s') = cr_surface (currentContext (storePath s))
   \<and> cr_path (currentContext s') = cr_path (currentContext (storePath s))
   \<and> (isElementAdded s \<longrightarrow> cr_path (currentContext s') = [])"

text \<open>A path can only be pending on an initialised surface: the flag is set by
  \<^verbatim>\<open>initSurface\<close> and by the primitives, which draw on the context of the surface,
  and every way to \<^verbatim>\<open>deinitSurface\<close> passes \<^verbatim>\<open>storePath\<close> first.\<close>

definition pending_needs_surface :: "CAIRO_GAL \<Rightarrow> bool" where
  "pending_needs_surface s \<longleftrightarrow> (isElementAdded s \<longrightarrow> isInitialized s)"

section \<open>Example inputs\<close>

text \<open>A board environment with four copper layers (0 and 3 external), two technical
  layers and the board outline on layer 6; the helpers that no example reaches are
  placeholders.\<close>

definition ex_env :: PCB_ENV where
  "ex_env =
     \<lparr>AllCuMask = {0, 1, 2, 3}, ExternalCuMask = {0, 3}, AllBoardTechMask = {4, 5},
      Edge_Cuts = 6, LIGHTGRAY = COLOR4D (3 / 4) (3 / 4) (3 / 4) 1,
      IsCopperLayer = (\<lambda>l. 0 \<le> l \<and> l \<le> 3), ArcTangente = (\<lambda>dy dx. 0),
      RotatePoint = (\<lambda>pt angle. pt), wxStringSplit = (\<lambda>t c. [t])\<rparr>"

definition ex_plotter :: "LSET \<Rightarrow> BRDITEMS_PLOTTER" where
  "ex_plotter layers =
     \<lparr>m_layerMask = layers, board_LayerColor = (\<lambda>l. COLOR4D 1 0 0 1), plotMode = FILLED,
      fineWidthAdj = 5, m_plotter = []\<rparr>"

definition ex_pad :: D_PAD where
  "ex_pad =
     \<lparr>pad_ShapePos = (100, 200), pad_LayerSet = {0, 3, 4}, pad_ParentReference = ''U1'',
      pad_PadName = ''1'', pad_Netname = ''GND'', pad_Attribute = PAD_ATTRIB_STANDARD,
      pad_Shape = PAD_SHAPE_CIRCLE, pad_Size = (60, 60), pad_Orientation = 0,
      pad_RoundRectCornerRadius = 0, pad_Polygon = []\<rparr>"


definition ex_edge :: EDGE_MODULE where
  "ex_edge =
     \<lparr>edge_Type = PCB_MODULE_EDGE_T, edge_Layer = 4, edge_Shape = S_POLYGON, edge_Width = 2,
      edge_Start = (0, 0), edge_End = (0, 0), edge_Angle = 0, edge_PolyPoints = [(5, 5)],
      edge_ParentReference = ''U1'', edge_ParentModule = Some (0, (100, 200))\<rparr>"

definition ex_text :: TEXTE_PCB where
  "ex_text =
     \<lparr>txt_ShownText = [], txt_Layer = 4, txt_TextSize = (10, 10), txt_TextPos = (0, 0),
      txt_TextAngle = 0, txt_Thickness = 1, txt_Mirrored = False, txt_Bold = False,
      txt_Italic = False, txt_MultilineAllowed = False,
      txt_HorizJustify = GR_TEXT_HJUSTIFY_CENTER, txt_VertJustify = GR_TEXT_VJUSTIFY_CENTER,
      txt_LinePositions = (\<lambda>n. [])\<rparr>"

text \<open>A GAL as its constructor leaves the flags (not grouping, not initialised, no
  compositor, group counter 0), with no group, stroking in red and not filling.\<close>

definition ex_gal :: CAIRO_GAL where
  "ex_gal =
     \<lparr>isGrouping = False, isInitialized = False, validCompositor = False, isElementAdded = False,
      groupCounter = 0, groups = [], currentGroup = 0, isFillEnabled = False,
      isStrokeEnabled = True, fillColor = COLOR4D 0 0 0 0, strokeColor = COLOR4D 1 0 0 1,
      lineWidth = 1, layerDepth = 0, backgroundColor = COLOR4D 0 0 0 1, screenSize = (640, 480),
      worldScreenMatrix = MATRIX_MULTIPLY 1 0 0 1 0 0, mainBuffer = 0, overlayBuffer = 0,
      currentTarget = TARGET_CACHED, currentContext = cairo_create [], destroyedPaths = []\<rparr>"


text \<open>\<^verbatim>\<open>BeginGroup(); DrawLine( (0,0), (10,0) ); EndGroup();\<close>\<close>

definition record_line :: "CAIRO_GAL \<Rightarrow> CAIRO_GAL" where
  "record_line s = EndGroup (DrawLine (0, 0) (10, 0) (snd (BeginGroup s)))"

section \<open>Properties of the board-item plotter\<close>


lemma emit_fields [simp]:
  "m_layerMask (emit c p) = m_layerMask p"
  "board_LayerColor (emit c p) = board_LayerColor p"
  "plotMode (emit c p) = plotMode p"
  "fineWidthAdj (emit c p) = fineWidthAdj p"
  by (simp_all add: emit_def)

lemma getColor_emit [simp]: "getColor env (emit c p) l = getColor env p l"
  by (simp add: getColor_def)

subsection \<open>Drill marks\<close>


subsection \<open>Pads\<close>

text \<open>
  Claim C4. \<^verbatim>\<open>PlotPad\<close> of a through-hole standard pad on a layer set with a copper
  layer sets the colour and flashes the pad once, with metadata whose aperture
  attribute is the component-pad attribute when the layer set has an external copper
  layer and the pad is on a board technical layer, and the via-pad attribute otherwise
  (internal copper layers only, or a pad on no technical layer).
\<close>

theorem PlotPad_through_hole_aperture:
  assumes "pad_Attribute aPad = PAD_ATTRIB_STANDARD"
    and "m_layerMask p \<inter> AllCuMask env \<noteq> {}"
  shows "\<exists>c flash md.
      m_plotter (PlotPad env p aPad aColor aPlotMode) = m_plotter p @ [SetColor c, flash]
    \<and> is_primitive flash \<and> call_metadata flash = Some md
    \<and> m_ApertAttribute md =
        (if m_layerMask p \<inter> ExternalCuMask env \<noteq> {} \<and> pad_LayerSet aPad \<inter> AllBoardTechMask env \<noteq> {}
         then GBR_APERTURE_ATTRIB_COMPONENTPAD else GBR_APERTURE_ATTRIB_VIAPAD)"
proof -
  have md: "m_ApertAttribute (PlotPad_metadata env (m_layerMask p) aPad) =
        (if m_layerMask p \<inter> ExternalCuMask env \<noteq> {} \<and> pad_LayerSet aPad \<inter> AllBoardTechMask env \<noteq> {}
         then GBR_APERTURE_ATTRIB_COMPONENTPAD else GBR_APERTURE_ATTRIB_VIAPAD)"
    using assms by (simp add: PlotPad_metadata_def Let_def)
  show ?thesis
    by (cases "pad_Shape aPad") (simp_all add: PlotPad_def Let_def emit_def md)
qed

text \<open>The same pad plotted on the external copper layer 0 and on the internal copper
  layer 1.\<close>

theorem PlotPad_through_hole_aperture_witness:
  "(\<exists>c flash md.
      m_plotter (PlotPad ex_env (ex_plotter {0}) ex_pad (COLOR4D 1 0 0 1) FILLED) = [SetColor c, flash]
    \<and> is_primitive flash \<and> call_metadata flash = Some md
    \<and> m_ApertAttribute md = GBR_APERTURE_ATTRIB_COMPONENTPAD)
   \<and> (\<exists>c flash md.
      m_plotter (PlotPad ex_env (ex_plotter {1}) ex_pad (COLOR4D 1 0 0 1) FILLED) = [SetColor c, flash]
    \<and> is_primitive flash \<and> call_metadata flash = Some md
    \<and> m_ApertAttribute md = GBR_APERTURE_ATTRIB_VIAPAD)"
proof -
  have std: "pad_Attribute ex_pad = PAD_ATTRIB_STANDARD"
    by (simp add: ex_pad_def)
  have cu0: "m_layerMask (ex_plotter {0}) \<inter> AllCuMask ex_env \<noteq> {}"
    by (simp add: ex_plotter_def ex_env_def)
  have cu1: "m_layerMask (ex_plotter {1}) \<inter> AllCuMask ex_env \<noteq> {}"
    by (simp add: ex_plotter_def ex_env_def)
  show ?thesis
    using PlotPad_through_hole_aperture [OF std cu0, of "COLOR4D 1 0 0 1" FILLED]
      PlotPad_through_hole_aperture [OF std cu1, of "COLOR4D 1 0 0 1" FILLED]
    by (simp add: ex_plotter_def ex_env_def ex_pad_def)
qed

subsection \<open>Targets\<close>









subsection \<open>Malformed polygons\<close>

text \<open>
  Claim C9, as the claim states it, fails: plotting a footprint-edge polygon of one
  point leaves no primitive call, but it does change the plotter, since the colour is
  set before the shape is looked at.
\<close>

theorem malformed_polygon_sets_color:
  "Plot_1_EdgeModule ex_env (ex_plotter {4}) ex_edge \<noteq> ex_plotter {4}
   \<and> m_plotter (Plot_1_EdgeModule ex_env (ex_plotter {4}) ex_edge) = [SetColor (COLOR4D 1 0 0 1)]
   \<and> edge_Shape ex_edge = S_POLYGON \<and> length (edge_PolyPoints ex_edge) = 1"
  by (simp add: Plot_1_EdgeModule_def ex_edge_def ex_plotter_def ex_env_def getColor_def WHITE_def
      Let_def emit_def)

text \<open>
  Claim C9, amended. Plotting a footprint-edge polygon with one point or fewer emits no
  primitive call and no error: the only call is the \<^verbatim>\<open>SetColor\<close> with the colour of
  the layer of the edge, issued before the shape is looked at; the rest of the plotter
  is unchanged (and an item that is not a footprint edge changes nothing). Drawing a
  line chain with fewer than two points leaves the drawing state of the GAL unchanged.
\<close>

theorem malformed_polygon_no_primitive:
  assumes "edge_Shape aEdge = S_POLYGON" and "length (edge_PolyPoints aEdge) \<le> 1"
  shows "Plot_1_EdgeModule env p aEdge =
           (if edge_Type aEdge = PCB_MODULE_EDGE_T
            then p\<lparr>m_plotter := m_plotter p @ [SetColor (getColor env p (edge_Layer aEdge))]\<rparr>
            else p)
       \<and> filter is_primitive (m_plotter (Plot_1_EdgeModule env p aEdge)) = filter is_primitive (m_plotter p)
       \<and> (length (chain_Points aLineChain) < 2 \<longrightarrow> drawPoly aLineChain s = s)"
  using assms by (simp add: Plot_1_EdgeModule_def Let_def emit_def drawPoly_def)

theorem malformed_polygon_no_primitive_witness:
  "m_plotter (Plot_1_EdgeModule ex_env (ex_plotter {4}) ex_edge) = [SetColor (COLOR4D 1 0 0 1)]
   \<and> filter is_primitive (m_plotter (Plot_1_EdgeModule ex_env (ex_plotter {4}) ex_edge)) = []
   \<and> drawPoly \<lparr>chain_Points = [(1, 1)], chain_Closed = True\<rparr> ex_gal = ex_gal"
proof -
  have a: "edge_Shape ex_edge = S_POLYGON" and b: "length (edge_PolyPoints ex_edge) \<le> 1"
    by (simp_all add: ex_edge_def)
  show ?thesis
    using malformed_polygon_no_primitive [OF a b, of ex_env "ex_plotter {4}"
        "\<lparr>chain_Points = [(1, 1)], chain_Closed = True\<rparr>" ex_gal]
    by (simp add: ex_edge_def ex_plotter_def ex_env_def getColor_def WHITE_def)
qed

subsection \<open>Board texts\<close>

text \<open>
  Claim C10. \<^verbatim>\<open>PlotTextePcb\<close> of a text whose shown text is empty returns the plotter
  as it was: no call reaches the sink, neither a primitive nor a colour nor metadata,
  whatever the layer mask says about the layer of the text.
\<close>

theorem PlotTextePcb_empty_text:
  "txt_ShownText pt_texte = [] \<Longrightarrow> PlotTextePcb env p pt_texte = p"
  by (simp add: PlotTextePcb_def)

text \<open>An empty text on the visible layer 4.\<close>

theorem PlotTextePcb_empty_text_witness:
  "txt_Layer ex_text \<in> m_layerMask (ex_plotter {4})
   \<and> PlotTextePcb ex_env (ex_plotter {4}) ex_text = ex_plotter {4}"
proof -
  have e: "txt_ShownText ex_text = []" by (simp add: ex_text_def)
  show ?thesis
    using PlotTextePcb_empty_text [OF e, of ex_env "ex_plotter {4}"]
    by (simp add: ex_text_def ex_plotter_def)
qed

section \<open>Properties of the Cairo GAL\<close>

subsection \<open>What the helpers leave alone\<close>

lemmas cairo_defs = cairo_create_def cairo_add_def cairo_move_to_def cairo_line_to_def
  cairo_curve_to_def cairo_arc_def cairo_arc_negative_def cairo_rectangle_def
  cairo_new_sub_path_def cairo_close_path_def cairo_new_path_def cairo_copy_path_def
  cairo_append_path_def cairo_set_source_rgba_def cairo_set_source_rgb_def
  cairo_set_line_width_def cairo_fill_preserve_def cairo_stroke_preserve_def cairo_fill_def
  cairo_stroke_def cairo_rotate_def cairo_translate_def cairo_scale_def cairo_transform_def
  cairo_set_matrix_def cairo_save_def cairo_restore_def

lemma on_context_fields [simp]:
  "isGrouping (on_context f s) = isGrouping s"
  "isInitialized (on_context f s) = isInitialized s"
  "validCompositor (on_context f s) = validCompositor s"
  "isElementAdded (on_context f s) = isElementAdded s"
  "groupCounter (on_context f s) = groupCounter s"
  "groups (on_context f s) = groups s"
  "currentGroup (on_context f s) = currentGroup s"
  "isFillEnabled (on_context f s) = isFillEnabled s"
  "isStrokeEnabled (on_context f s) = isStrokeEnabled s"
  "fillColor (on_context f s) = fillColor s"
  "strokeColor (on_context f s) = strokeColor s"
  "lineWidth (on_context f s) = lineWidth s"
  "layerDepth (on_context f s) = layerDepth s"
  "backgroundColor (on_context f s) = backgroundColor s"
  "screenSize (on_context f s) = screenSize s"
  "worldScreenMatrix (on_context f s) = worldScreenMatrix s"
  "mainBuffer (on_context f s) = mainBuffer s"
  "overlayBuffer (on_context f s) = overlayBuffer s"
  "currentTarget (on_context f s) = currentTarget s"
  "destroyedPaths (on_context f s) = destroyedPaths s"
  "currentContext (on_context f s) = f (currentContext s)"
  by (simp_all add: on_context_def)

lemma push_back_fields [simp]:
  "isGrouping (push_back e s) = isGrouping s"
  "isInitialized (push_back e s) = isInitialized s"
  "validCompositor (push_back e s) = validCompositor s"
  "isElementAdded (push_back e s) = isElementAdded s"
  "groupCounter (push_back e s) = groupCounter s"
  "currentGroup (push_back e s) = currentGroup s"
  "isFillEnabled (push_back e s) = isFillEnabled s"
  "isStrokeEnabled (push_back e s) = isStrokeEnabled s"
  "fillColor (push_back e s) = fillColor s"
  "strokeColor (push_back e s) = strokeColor s"
  "lineWidth (push_back e s) = lineWidth s"
  "layerDepth (push_back e s) = layerDepth s"
  "backgroundColor (push_back e s) = backgroundColor s"
  "screenSize (push_back e s) = screenSize s"
  "worldScreenMatrix (push_back e s) = worldScreenMatrix s"
  "mainBuffer (push_back e s) = mainBuffer s"
  "overlayBuffer (push_back e s) = overlayBuffer s"
  "currentTarget (push_back e s) = currentTarget s"
  "destroyedPaths (push_back e s) = destroyedPaths s"
  "currentContext (push_back e s) = currentContext s"
  by (simp_all add: push_back_def)

lemma groups_push_back:
  "groups (push_back e s) = AList.map_entry (currentGroup s) (\<lambda>g. g @ [e]) (groups s)"
  by (simp add: push_back_def)

lemma map_fst_map_entry: "map fst (AList.map_entry k f xs) = map fst xs"
  by (induction xs) auto

lemma storePath_not_pending: "\<not> isElementAdded s \<Longrightarrow> storePath s = s"
  by (simp add: storePath_def)

lemma isElementAdded_storePath [simp]: "isElementAdded (storePath s) = False"
  by (simp add: storePath_def Let_def)

lemma storePath_idem [simp]: "storePath (storePath s) = storePath s"
  by (rule storePath_not_pending) simp

lemma storePath_fields [simp]:
  "isGrouping (storePath s) = isGrouping s"
  "isInitialized (storePath s) = isInitialized s"
  "validCompositor (storePath s) = validCompositor s"
  "groupCounter (storePath s) = groupCounter s"
  "currentGroup (storePath s) = currentGroup s"
  "isFillEnabled (storePath s) = isFillEnabled s"
  "isStrokeEnabled (storePath s) = isStrokeEnabled s"
  "fillColor (storePath s) = fillColor s"
  "strokeColor (storePath s) = strokeColor s"
  "lineWidth (storePath s) = lineWidth s"
  "layerDepth (storePath s) = layerDepth s"
  "backgroundColor (storePath s) = backgroundColor s"
  "screenSize (storePath s) = screenSize s"
  "worldScreenMatrix (storePath s) = worldScreenMatrix s"
  "mainBuffer (storePath s) = mainBuffer s"
  "overlayBuffer (storePath s) = overlayBuffer s"
  "currentTarget (storePath s) = currentTarget s"
  "destroyedPaths (storePath s) = destroyedPaths s"
  by (simp_all add: storePath_def Let_def)

lemma storePath_keys [simp]: "map fst (groups (storePath s)) = map fst (groups s)"
  by (simp add: storePath_def Let_def groups_push_back map_fst_map_entry)

lemma storePath_path: "isElementAdded s \<Longrightarrow> cr_path (currentContext (storePath s)) = []"
  by (simp add: storePath_def Let_def cairo_new_path_def)

lemma storePath_context_fields [simp]:
  "cr_target (currentContext (storePath s)) = cr_target (currentContext s)"
  "cr_matrix (currentContext (storePath s)) = cr_matrix (currentContext s)"
  "cr_line_width (currentContext (storePath s)) = cr_line_width (currentContext s)"
  "cr_saved (currentContext (storePath s)) = cr_saved (currentContext s)"
  by (simp_all add: storePath_def Let_def cairo_defs)

lemma flushPath_fields [simp]:
  "isInitialized (flushPath s) = isInitialized s"
  "isGrouping (flushPath s) = isGrouping s"
  "groups (flushPath s) = groups s"
  by (simp_all add: flushPath_def Let_def)

lemma flushPath_clears_path:
  "isFillEnabled s \<or> isStrokeEnabled s \<Longrightarrow> cr_path (currentContext (flushPath s)) = []"
  by (auto simp: flushPath_def Let_def cairo_fill_def cairo_stroke_def cairo_new_path_def)

lemma surface_set_line_width [simp]:
  "cr_surface (cairo_set_line_width w cr) = cr_surface cr"
  "cr_path (cairo_set_line_width w cr) = cr_path cr"
  by (simp_all add: cairo_set_line_width_def)

lemma initSurface_initialized [simp]: "isInitialized (initSurface s)"
  by (simp add: initSurface_def Let_def)

lemma deinitSurface_pending [simp]:
  "isElementAdded (deinitSurface s) = isElementAdded s" "\<not> isInitialized (deinitSurface s)"
  by (simp_all add: deinitSurface_def)

subsection \<open>A path is pending only on an initialised surface\<close>

lemma pending_needs_surface_setters:
  "pending_needs_surface (SetIsFill b s)"
  "pending_needs_surface (SetIsStroke b s)"
  "pending_needs_surface (SetStrokeColor c s)"
  "pending_needs_surface (SetFillColor c s)"
  "pending_needs_surface (SetLineWidth w s)"
  "pending_needs_surface (Rotate a s)"
  "pending_needs_surface (Translate v s)"
  "pending_needs_surface (Scale v s)"
  "pending_needs_surface (Save s)"
  "pending_needs_surface (Restore s)"
  by (simp_all add: pending_needs_surface_def SetIsFill_def SetIsStroke_def SetStrokeColor_def
      SetFillColor_def SetLineWidth_def Rotate_def Translate_def Scale_def Save_def Restore_def
      Let_def)

lemma pending_needs_surface_surface:
  "pending_needs_surface (BeginDrawing s)"
  "pending_needs_surface (EndDrawing s)"
  "pending_needs_surface (snd (BeginGroup s))"
  "pending_needs_surface (EndGroup s)"
  by (simp_all add: pending_needs_surface_def BeginDrawing_def EndDrawing_def Flush_def
      BeginGroup_def EndGroup_def getNewGroupNumber_def setCompositor_def compositor_SetBuffer_def
      Let_def deinitSurface_def)

lemma fold_on_context_initialized [simp]:
  "isInitialized (fold (\<lambda>i. on_context (f i)) xs s) = isInitialized s"
  by (induction xs arbitrary: s) simp_all

lemma pending_needs_surface_primitives:
  assumes "isInitialized s"
  shows "pending_needs_surface (DrawLine a b s)"
    and "pending_needs_surface (DrawCircle a r s)"
    and "pending_needs_surface (DrawRectangle a b s)"
    and "pending_needs_surface (DrawCurve a b c d s)"
    and "pending_needs_surface (DrawArc a r t1 t2 s)"
    and "pending_needs_surface (DrawSegment a b w s)"
    and "pending_needs_surface (DrawArcSegment a r t1 t2 w s)"
    and "pending_needs_surface (drawPoly ch s)"
  using assms
  by (simp_all add: pending_needs_surface_def DrawLine_def DrawCircle_def DrawRectangle_def
      DrawCurve_def DrawArc_def DrawSegment_def DrawArcSegment_def drawPoly_def SetLineWidth_def
      Let_def)

lemma pending_needs_surface_kept:
  assumes "pending_needs_surface s"
  shows "pending_needs_surface (SetLayerDepth d s)"
    and "pending_needs_surface (SetTarget t s)"
    and "pending_needs_surface (ChangeGroupColor h c s)"
    and "pending_needs_surface (DeleteGroup h s)"
proof -
  show "pending_needs_surface (SetLayerDepth d s)"
    using assms
    by (auto simp: pending_needs_surface_def SetLayerDepth_def GAL_SetLayerDepth_def Let_def)
  show "pending_needs_surface (SetTarget t s)"
    using assms
    by (cases t) (auto simp: pending_needs_surface_def SetTarget_def compositor_SetBuffer_def Let_def)
  show "pending_needs_surface (ChangeGroupColor h c s)"
    by (simp add: pending_needs_surface_def ChangeGroupColor_def Let_def)
  show "pending_needs_surface (DeleteGroup h s)"
    by (simp add: pending_needs_surface_def DeleteGroup_def Let_def)
qed

lemma execCommand_not_pending [simp]: "isElementAdded (execCommand e s) = isElementAdded s"
  by (cases e) simp_all

lemma execCommand_initialized [simp]: "isInitialized (execCommand e s) = isInitialized s"
  by (cases e) simp_all

lemma runGroup_not_pending:
  "runGroup n cmds s = Some u \<Longrightarrow> \<not> isElementAdded s \<Longrightarrow> \<not> isElementAdded u"
proof (induction n arbitrary: cmds s u)
  case 0
  then show ?case
  proof (induction cmds arbitrary: s)
    case Nil
    then show ?case by simp
  next
    case (Cons e es)
    then show ?case by (cases e) simp_all
  qed
next
  case (Suc m)
  from Suc.prems show ?case
  proof (induction cmds arbitrary: s)
    case Nil
    then show ?case by simp
  next
    case (Cons e es)
    show ?case
    proof (cases e)
      case (CMD_CALL_GROUP g)
      define s2 where "s2 = (storePath s)\<lparr>groups := groups_index g (groups (storePath s))\<rparr>"
      from Cons.prems(1) CMD_CALL_GROUP obtain s3
        where a: "runGroup m (groups_at g (groups s2)) s2 = Some s3"
          and b: "runGroup (Suc m) es s3 = Some u"
        by (simp add: Let_def s2_def split: option.splits)
      have "\<not> isElementAdded s2" by (simp add: s2_def)
      with a have "\<not> isElementAdded s3" by (rule Suc.IH)
      with b show ?thesis by (rule Cons.IH)
    qed (use Cons in simp_all)
  qed
qed

lemma DrawGroup_not_pending:
  assumes "DrawGroup n h s = Some u"
  shows "\<not> isElementAdded u"
proof -
  define s2 where "s2 = (storePath s)\<lparr>groups := groups_index h (groups (storePath s))\<rparr>"
  from assms have "runGroup n (groups_at h (groups s2)) s2 = Some u"
    by (simp add: DrawGroup_def Let_def s2_def)
  moreover have "\<not> isElementAdded s2" by (simp add: s2_def)
  ultimately show ?thesis by (rule runGroup_not_pending)
qed

lemma pending_needs_surface_replay: "DrawGroup n h s = Some u \<Longrightarrow> pending_needs_surface u"
  by (simp add: pending_needs_surface_def DrawGroup_not_pending)

subsection \<open>The pending path is committed before the state changes\<close>

lemma flushed_first_storePath: "flushed_first s (storePath s)"
  by (simp add: flushed_first_def storePath_path)






text \<open>What the flush does with a pending path. While not grouping it fills and
  strokes the path, as far as filling and stroking are enabled, with the fill and stroke
  colours of the state it is called in; while grouping it paints nothing and records
  the path. Either way the path is cleared.\<close>

lemma storePath_paints:
  assumes "isElementAdded s" and "\<not> isGrouping s"
  shows "cr_surface (currentContext (storePath s)) =
           cr_surface (currentContext s) @
           (if isFillEnabled s \<and> cr_path (currentContext s) \<noteq> []
            then [(cr_target (currentContext s),
                   PAINT_FILL (COLOR4D (col_r (fillColor s)) (col_g (fillColor s)) (col_b (fillColor s)) 1)
                     (cr_path (currentContext s)))]
            else []) @
           (if isStrokeEnabled s \<and> cr_path (currentContext s) \<noteq> []
            then [(cr_target (currentContext s),
                   PAINT_STROKE (COLOR4D (col_r (strokeColor s)) (col_g (strokeColor s)) (col_b (strokeColor s)) 1)
                     (cr_line_width (currentContext s)) (cr_path (currentContext s)))]
            else [])"
  using assms
  by (simp add: storePath_def Let_def on_context_def cairo_fill_preserve_def
      cairo_stroke_preserve_def cairo_set_source_rgb_def cairo_set_source_rgba_def cairo_new_path_def)

lemma storePath_records:
  assumes "isElementAdded s" and "isGrouping s"
  shows "cr_surface (currentContext (storePath s)) = cr_surface (currentContext s)
       \<and> groups (storePath s) =
           AList.map_entry (currentGroup s)
             (\<lambda>g. g @ (if isStrokeEnabled s then [CMD_STROKE_PATH (cairo_copy_path (currentContext s))] else [])
                    @ (if isFillEnabled s then [CMD_FILL_PATH (cairo_copy_path (currentContext s))] else []))
             (groups s)"
proof -
  have twice: "AList.map_entry k f (AList.map_entry k g xs) = AList.map_entry k (f \<circ> g) xs"
    for k :: int and f g :: "GROUP \<Rightarrow> GROUP" and xs
    by (induction xs) auto
  have same: "AList.map_entry k (\<lambda>g. g) xs = xs" for k :: int and xs :: "(int \<times> GROUP) list"
    by (induction xs) auto
  show ?thesis
    using assms
    by (cases "isStrokeEnabled s"; cases "isFillEnabled s")
       (simp_all add: storePath_def Let_def cairo_new_path_def groups_push_back twice same comp_def)
qed



subsection \<open>Handles that are not live\<close>

lemma groups_contains_iff: "groups_contains h gs \<longleftrightarrow> h \<in> fst ` set gs"
  by (simp add: groups_contains_def map_of_eq_None_iff)

lemma groups_contains_storePath [simp]:
  "groups_contains h (groups (storePath s)) = groups_contains h (groups s)"
proof -
  have "fst ` set (groups (storePath s)) = fst ` set (groups s)"
    using storePath_keys [of s] by (metis set_map)
  then show ?thesis by (simp add: groups_contains_iff)
qed

lemma map_entry_absent: "k \<notin> fst ` set xs \<Longrightarrow> AList.map_entry k f xs = xs"
  by (induction xs) auto






lemma groups_contains_index [simp]: "groups_contains h (groups_index h gs)"
  by (auto simp: groups_index_def groups_contains_def map_add_def)





subsection \<open>Clearing the cache\<close>

text \<open>\<^verbatim>\<open>DeleteGroup\<close> removes its handle from the table and no other. So
  \<^verbatim>\<open>ClearCache\<close>, which deletes the handles from the number of groups minus one down
  to 0, empties the table when the live handles are among these numbers.\<close>

lemma keys_DeleteGroup: "map fst (groups (DeleteGroup h s)) = filter (\<lambda>k. k \<noteq> h) (map fst (groups s))"
proof -
  have del: "map fst (AList.delete h xs) = filter (\<lambda>k. k \<noteq> h) (map fst xs)"
    for xs :: "(int \<times> GROUP) list"
    by (induction xs) (auto simp: AList.delete_eq)
  have idx: "filter (\<lambda>k. k \<noteq> h) (map fst (groups_index h xs)) = filter (\<lambda>k. k \<noteq> h) (map fst xs)"
    for xs :: "(int \<times> GROUP) list"
    by (simp add: groups_index_def)
  show ?thesis
    by (simp add: DeleteGroup_def Let_def del idx)
qed

lemma keys_fold_DeleteGroup:
  "map fst (groups (fold (\<lambda>i. DeleteGroup (int i)) is s)) =
     filter (\<lambda>k. k \<notin> int ` set is) (map fst (groups s))"
proof (induction "is" arbitrary: s)
  case Nil
  then show ?case by simp
next
  case (Cons i "is")
  show ?case
    by (simp add: Cons.IH keys_DeleteGroup)
qed

lemma ClearCache_dense:
  assumes "set (map fst (groups s)) \<subseteq> int ` {0..<length (groups s)}"
  shows "groups (ClearCache s) = []"
proof -
  have "map fst (groups (ClearCache s)) =
      filter (\<lambda>k. k \<notin> int ` {0..<length (groups s)}) (map fst (groups s))"
    by (simp add: ClearCache_def keys_fold_DeleteGroup)
  also have "\<dots> = []"
    using assms by (auto simp: filter_empty_conv)
  finally show ?thesis by simp
qed

text \<open>
  Claim C6 fails on the code. Three groups are recorded (handles 0, 1, 2, each with a
  stroke-path command), group 1 is deleted, and \<^verbatim>\<open>ClearCache\<close> runs: its loop
  counts down from the number of groups minus one, so it deletes the handles 1 and 0
  and never reaches 2. Group 2 stays in the table and its path is not released.
\<close>

theorem ClearCache_leaves_group:
  "map fst (groups (DeleteGroup 1 (record_line (record_line (record_line ex_gal))))) = [0, 2]
   \<and> map fst (groups (ClearCache (DeleteGroup 1 (record_line (record_line (record_line ex_gal)))))) = [2]
   \<and> concat (map ownedPath (groups_at 2
        (groups (ClearCache (DeleteGroup 1 (record_line (record_line (record_line ex_gal)))))))) =
       [([MATRIX_MULTIPLY 1 0 0 1 0 0], [])]
   \<and> length (destroyedPaths
        (ClearCache (DeleteGroup 1 (record_line (record_line (record_line ex_gal)))))) = 2"
  by code_simp

subsection \<open>Recording and replaying a group\<close>

text \<open>Every primitive ends with \<^verbatim>\<open>flushPath\<close> (or strokes by itself), so with the
  fill or the stroke enabled it leaves no path in the context, grouping or not.\<close>

lemma flushPath_flags [simp]:
  "isFillEnabled (flushPath s) = isFillEnabled s"
  "isStrokeEnabled (flushPath s) = isStrokeEnabled s"
  "isElementAdded (flushPath s) = isElementAdded s"
  by (simp_all add: flushPath_def Let_def)

lemma fold_on_context_flags [simp]:
  "isFillEnabled (fold (\<lambda>i. on_context (f i)) xs s) = isFillEnabled s"
  "isStrokeEnabled (fold (\<lambda>i. on_context (f i)) xs s) = isStrokeEnabled s"
  by (induction xs arbitrary: s) simp_all

lemma primitives_clear_path:
  assumes "isFillEnabled s \<or> isStrokeEnabled s"
  shows "cr_path (currentContext (DrawLine a b s)) = []"
    and "cr_path (currentContext (DrawSegment a b w s)) = []"
    and "cr_path (currentContext (DrawCircle a r s)) = []"
    and "cr_path (currentContext (DrawArc a r t1 t2 s)) = []"
    and "cr_path (currentContext (DrawArcSegment a r t1 t2 w s)) = []"
    and "cr_path (currentContext (DrawRectangle a b s)) = []"
    and "cr_path (currentContext (DrawCurve a b c d s)) = []"
    and "2 \<le> length (chain_Points ch) \<Longrightarrow> cr_path (currentContext (drawPoly ch s)) = []"
proof -
  show "cr_path (currentContext (DrawLine a b s)) = []"
    using assms by (simp add: DrawLine_def Let_def flushPath_clears_path)
  show "cr_path (currentContext (DrawCircle a r s)) = []"
    using assms by (simp add: DrawCircle_def Let_def flushPath_clears_path)
  show "cr_path (currentContext (DrawRectangle a b s)) = []"
    using assms by (simp add: DrawRectangle_def Let_def flushPath_clears_path)
  show "cr_path (currentContext (DrawCurve a b c d s)) = []"
    using assms by (simp add: DrawCurve_def Let_def flushPath_clears_path)
  show "cr_path (currentContext (DrawArc a r t1 t2 s)) = []"
    using assms
    by (cases "isFillEnabled s") (simp_all add: DrawArc_def Let_def flushPath_clears_path)
  show "cr_path (currentContext (DrawSegment a b w s)) = []"
    using assms
    by (cases "isFillEnabled s")
       (simp_all add: DrawSegment_def Let_def flushPath_clears_path cairo_stroke_def cairo_new_path_def)
  show "cr_path (currentContext (DrawArcSegment a r t1 t2 w s)) = []"
    using assms
    by (cases "isFillEnabled s")
       (simp_all add: DrawArcSegment_def Let_def flushPath_clears_path cairo_stroke_def cairo_new_path_def)
  show "cr_path (currentContext (drawPoly ch s)) = []" if "2 \<le> length (chain_Points ch)"
    using assms that by (simp add: drawPoly_def Let_def flushPath_clears_path)
qed

text \<open>While grouping with the stroke enabled and the fill disabled, \<^verbatim>\<open>DrawLine\<close>
  strokes the line at once (\<^verbatim>\<open>flushPath\<close>), which clears the path; the flush that
  follows records a stroke-path command whose path is what is left: nothing.\<close>

lemma DrawLine_while_grouping:
  assumes "isGrouping s" and "isStrokeEnabled s" and "\<not> isFillEnabled s"
  shows "cr_surface (currentContext (DrawLine aStartPoint aEndPoint s)) =
           cr_surface (currentContext s) @
           [(cr_target (currentContext s),
             PAINT_STROKE (strokeColor s) (cr_line_width (currentContext s))
               (cr_path (currentContext s) @
                [(cr_matrix (currentContext s), PATH_MOVE_TO (fst aStartPoint) (snd aStartPoint)),
                 (cr_matrix (currentContext s), PATH_LINE_TO (fst aEndPoint) (snd aEndPoint))]))]
       \<and> groups (storePath (DrawLine aStartPoint aEndPoint s)) =
           AList.map_entry (currentGroup s)
             (\<lambda>g. g @ [CMD_STROKE_PATH (cr_matrix (currentContext s), [])]) (groups s)"
  using assms
  by (simp add: DrawLine_def storePath_def flushPath_def Let_def on_context_def push_back_def
      cairo_defs)

text \<open>
  Claim C2 fails on the code. A line is recorded into group 0 with the stroke enabled.
  The group holds one stroke-path command, with an empty path; the line was stroked on
  the surface while it was recorded. Replaying the group in a drawing pass paints
  nothing, while the same \<^verbatim>\<open>DrawLine\<close> issued without grouping paints the line.
\<close>

theorem grouped_line_not_replayed:
  "groups_at 0 (groups (record_line ex_gal)) = [CMD_STROKE_PATH ([MATRIX_MULTIPLY 1 0 0 1 0 0], [])]
   \<and> cr_surface (currentContext (record_line ex_gal)) =
       [(0, PAINT_FILL (COLOR4D 0 0 0 1) [([], PATH_RECTANGLE 0 0 640 480)]),
        (0, PAINT_STROKE (COLOR4D 1 0 0 1) (LINE_WIDTH 2)
              [([MATRIX_MULTIPLY 1 0 0 1 0 0], PATH_MOVE_TO 0 0),
               ([MATRIX_MULTIPLY 1 0 0 1 0 0], PATH_LINE_TO 10 0)])]
   \<and> map_option (\<lambda>u. cr_surface (currentContext u)) (DrawGroup 0 0 (BeginDrawing (record_line ex_gal))) =
       Some (cr_surface (currentContext (BeginDrawing (record_line ex_gal))))
   \<and> cr_surface (currentContext (DrawLine (0, 0) (10, 0) (BeginDrawing (record_line ex_gal)))) =
       cr_surface (currentContext (BeginDrawing (record_line ex_gal))) @
       [(1, PAINT_STROKE (COLOR4D 1 0 0 1) (LINE_WIDTH 2)
              [([MATRIX_MULTIPLY 1 0 0 1 0 0], PATH_MOVE_TO 0 0),
               ([MATRIX_MULTIPLY 1 0 0 1 0 0], PATH_LINE_TO 10 0)])]"
  by code_simp

subsection \<open>Changing the colour of a group\<close>

lemma calls_recolor [simp]: "calls (map (recolor c) cmds) = calls cmds"
  by (induction cmds rule: calls.induct) simp_all



lemma groups_contains_map_entry [simp]:
  "groups_contains h' (AList.map_entry h f gs) = groups_contains h' gs"
  by (simp add: groups_contains_iff AList.dom_map_entry)







lemma recolor_cases:
  "recolor c e =
     (case e of CMD_SET_FILLCOLOR c0 \<Rightarrow> CMD_SET_FILLCOLOR c
              | CMD_SET_STROKECOLOR c0 \<Rightarrow> CMD_SET_STROKECOLOR c
              | _ \<Rightarrow> e)"
  by (cases e) simp_all








lemma stroke_path_paints:
  "cr_surface (currentContext (execCommand (CMD_STROKE_PATH p) w)) =
     cr_surface (currentContext w) @
     (if cr_path (currentContext (on_context (cairo_append_path p) w)) = [] then []
      else [(cr_target (currentContext w),
             PAINT_STROKE (COLOR4D (col_r (strokeColor w)) (col_g (strokeColor w)) (col_b (strokeColor w)) 1)
               (cr_line_width (currentContext w))
               (cr_path (currentContext (on_context (cairo_append_path p) w))))])"
  by (simp add: cairo_defs)

lemma fill_path_paints:
  "cr_surface (currentContext (execCommand (CMD_FILL_PATH p) w)) =
     cr_surface (currentContext w) @
     (if cr_path (currentContext (on_context (cairo_append_path p) w)) = [] then []
      else [(cr_target (currentContext w),
             PAINT_FILL (COLOR4D (col_r (fillColor w)) (col_g (fillColor w)) (col_b (fillColor w)) 1)
               (cr_path (currentContext (on_context (cairo_append_path p) w))))])"
  by (simp add: cairo_defs)


lemma ChangeGroupColor_live [simp]: "groups_contains h (groups (ChangeGroupColor h c s))"
  by (simp add: ChangeGroupColor_def Let_def)

lemma ChangeGroupColor_not_pending [simp]: "\<not> isElementAdded (ChangeGroupColor h c s)"
  by (simp add: ChangeGroupColor_def Let_def)





end
